theory Spec2Isabelle
  imports Main "HOL-Library.Word" "HOL-Library.Monad_Syntax"
begin

unbundle bit_operations_syntax

section \<open>Data model of the DFU bootloader\<close>

type_synonym u8 = "8 word"
type_synonym u16 = "16 word"
type_synonym u32 = "32 word"

text \<open>The enumerations of \<^verbatim>\<open>rram-usbdfu.h\<close>, with the byte each one is sent as.\<close>

datatype DFU_Status_t =
  OK | errTARGET | errFILE | errWRITE | errERASE | errCHECK_ERASED | errPROG | errVERIFY
  | errADDRESS | errNOTDONE | errFIRMWARE | errVENDOR | errUSBR | errPOR | errUNKNOWN
  | errSTALLEDPKT

fun status_byte :: "DFU_Status_t \<Rightarrow> u8" where
  "status_byte OK = 0"
| "status_byte errTARGET = 1"
| "status_byte errFILE = 2"
| "status_byte errWRITE = 3"
| "status_byte errERASE = 4"
| "status_byte errCHECK_ERASED = 5"
| "status_byte errPROG = 6"
| "status_byte errVERIFY = 7"
| "status_byte errADDRESS = 8"
| "status_byte errNOTDONE = 9"
| "status_byte errFIRMWARE = 10"
| "status_byte errVENDOR = 11"
| "status_byte errUSBR = 12"
| "status_byte errPOR = 13"
| "status_byte errUNKNOWN = 14"
| "status_byte errSTALLEDPKT = 15"

datatype DFU_State_t =
  appIDLE | appDETACH | dfuIDLE | dfuDNLOAD_SYNC | dfuDNBUSY | dfuDNLOAD_IDLE
  | dfuMANIFEST_SYNC | dfuMANIFEST | dfuMANIFEST_WAIT_RESET | dfuUPLOAD_IDLE | dfuERROR

fun state_byte :: "DFU_State_t \<Rightarrow> u8" where
  "state_byte appIDLE = 0"
| "state_byte appDETACH = 1"
| "state_byte dfuIDLE = 2"
| "state_byte dfuDNLOAD_SYNC = 3"
| "state_byte dfuDNBUSY = 4"
| "state_byte dfuDNLOAD_IDLE = 5"
| "state_byte dfuMANIFEST_SYNC = 6"
| "state_byte dfuMANIFEST = 7"
| "state_byte dfuMANIFEST_WAIT_RESET = 8"
| "state_byte dfuUPLOAD_IDLE = 9"
| "state_byte dfuERROR = 10"

text \<open>DFU class requests and FLIP command groups stay bytes: both arrive from the host.\<close>

definition DFU_DETACH :: u8 where "DFU_DETACH = 0"
definition DFU_DNLOAD :: u8 where "DFU_DNLOAD = 1"
definition DFU_UPLOAD :: u8 where "DFU_UPLOAD = 2"
definition DFU_GETSTATUS :: u8 where "DFU_GETSTATUS = 3"
definition DFU_CLRSTATUS :: u8 where "DFU_CLRSTATUS = 4"
definition DFU_GETSTATE :: u8 where "DFU_GETSTATE = 5"
definition DFU_ABORT :: u8 where "DFU_ABORT = 6"

definition CMD_GROUP_DOWNLOAD :: u8 where "CMD_GROUP_DOWNLOAD = 1"
definition CMD_GROUP_UPLOAD :: u8 where "CMD_GROUP_UPLOAD = 3"
definition CMD_GROUP_EXEC :: u8 where "CMD_GROUP_EXEC = 4"
definition CMD_GROUP_READ :: u8 where "CMD_GROUP_READ = 5"
definition CMD_GROUP_SELECT :: u8 where "CMD_GROUP_SELECT = 6"

lemmas request_defs =
  DFU_DETACH_def DFU_DNLOAD_def DFU_UPLOAD_def DFU_GETSTATUS_def DFU_CLRSTATUS_def
  DFU_GETSTATE_def DFU_ABORT_def

lemmas group_defs =
  CMD_GROUP_DOWNLOAD_def CMD_GROUP_UPLOAD_def CMD_GROUP_EXEC_def CMD_GROUP_READ_def
  CMD_GROUP_SELECT_def

definition BOOTLOADER_VERSION :: u8 where "BOOTLOADER_VERSION = push_bit 4 2 OR 0"
definition BOOTLOADER_ID_BYTE1 :: u8 where "BOOTLOADER_ID_BYTE1 = 0xDC"
definition BOOTLOADER_ID_BYTE2 :: u8 where "BOOTLOADER_ID_BYTE2 = 0xFB"
definition MANUFACTURER_CODE :: u8 where "MANUFACTURER_CODE = 0x1E"
definition FAMILY_CODE :: u8 where "FAMILY_CODE = 0x94"
definition PRODUCT_NAME :: u8 where "PRODUCT_NAME = 0x13"
definition PRODUCT_REVISION :: u8 where "PRODUCT_REVISION = 0x14"

text \<open>
  \<^verbatim>\<open>USB_FLIP_Command_t\<close>: the array \<^verbatim>\<open>data[5]\<close> is a function of the index; the
  source reads and writes indices 0 to 4 only.
\<close>

record USB_FLIP_Command_t =
  group :: u8
  data :: "nat \<Rightarrow> u8"

text \<open>The two fields of \<^verbatim>\<open>USB_ControlRequest\<close> the bootloader reads.\<close>

record USB_Request =
  bRequest :: u8
  wLength :: u16

text \<open>
  Build constants of the target that the sources under study use but do not define
  (they come from the makefile, the AVR headers and the board driver).
  The parameters are naturals; the model takes \<open>FIXED_CONTROL_ENDPOINT_SIZE \<le> 254\<close>
  (the USB library allows 8, 16, 32 and 64), so that the \<^verbatim>\<open>uint8_t\<close> packet
  counter never wraps.
\<close>

record board =
  FIXED_CONTROL_ENDPOINT_SIZE :: nat
  SPM_PAGESIZE :: nat
  DATAFLASH_PAGE_SIZE :: nat
  BOOT_START_ADDR :: nat

datatype df_cmd = DF_CMD_BUFF1WRITE | DF_CMD_BUFF1TOMAINMEMWITHERASE | DF_CMD_CONTARRAYREAD_LF

text \<open>
  Every call of a primitive that acts on the hardware is logged, in order: the
  acknowledgements and writes of the control endpoint, the operations on the flash,
  the EEPROM and the dataflash, the watchdog. The acknowledgements of the setup and
  status stages (\<^verbatim>\<open>Endpoint_ClearSETUP\<close>, \<^verbatim>\<open>Endpoint_ClearStatusStage\<close>) are taken to
  return. Busy-waits on the memories (\<^verbatim>\<open>boot_spm_busy_wait\<close>, \<^verbatim>\<open>eeprom_busy_wait\<close>)
  always end and are not logged.
\<close>

datatype hw_call =
    EP_CLEAR_SETUP | EP_CLEAR_OUT | EP_CLEAR_IN | EP_CLEAR_STATUS_STAGE
  | EP_WRITE_BYTE u8 | EP_WRITE_WORD_LE u16
  | PAGE_ERASE u16 | PAGE_WRITE u16 | PAGE_FILL u16 u16 | RWW_ENABLE
  | EEPROM_WRITE u16 u8 | EEPROM_READ u16
  | PGM_READ_BYTE u16 | PGM_READ_WORD u16
  | DF_SELECT | DF_DESELECT | DF_TOGGLE_CS | DF_WAIT_BUSY
  | DF_CONFIG_WRITE df_cmd u32 u32 | DF_CONFIG_READ df_cmd u32 u32
  | DF_SEND u8 | DF_RECEIVE u32
  | WDT_ENABLE

text \<open>
  The globals of the bootloader, followed by the world it talks to:
  \<^item> \<open>out_queue\<close>: the OUT packets the host sends from now on; the head is the packet in
    the endpoint bank. With the queue empty, waiting for an OUT packet never ends.
  \<^item> \<open>in_ready\<close>: how many more times the IN endpoint becomes ready (the host collects
    a packet). At 0, waiting for IN ready never ends.
  \<^item> \<open>flash\<close>, \<open>eeprom\<close>, \<open>dataflash\<close>: what the read primitives return. Programming
    operations are logged in \<open>trace\<close>; their effect on later reads is not modelled.
  \<^item> \<open>df_pos\<close>: the cell a continuous dataflash read delivers next.
\<close>

record dfu =
  waitForSecondRequest :: bool
  flipCommand :: USB_FLIP_Command_t
  DFU_State :: DFU_State_t
  DFU_Status :: DFU_Status_t
  nonBlankAddr :: u16
  AppStartPtr :: u16
  curFlash64KBPageNumber :: u8
  out_queue :: "u8 list list"
  in_ready :: nat
  flash :: "u16 \<Rightarrow> u8"
  eeprom :: "u16 \<Rightarrow> u8"
  dataflash :: "u32 \<Rightarrow> u8"
  df_pos :: u32
  trace :: "hw_call list"

section \<open>Hardware primitives\<close>

definition emit :: "hw_call \<Rightarrow> dfu \<Rightarrow> dfu" where
  "emit c s = s\<lparr>trace := trace s @ [c]\<rparr>"

text \<open>\<^verbatim>\<open>while(!Endpoint_IsOUTReceived()){}\<close> and \<^verbatim>\<open>while(!Endpoint_IsINReady()){}\<close>:
  \<open>None\<close> is a wait that never ends.\<close>

definition wait_OUT :: "dfu \<Rightarrow> dfu option" where
  "wait_OUT s = (if out_queue s = [] then None else Some s)"

definition wait_IN :: "dfu \<Rightarrow> dfu option" where
  "wait_IN s = (if in_ready s = 0 then None else Some (s\<lparr>in_ready := in_ready s - 1\<rparr>))"

text \<open>Reading the bank past the bytes of the packet is taken to give 0.\<close>

definition Endpoint_Read_Byte :: "dfu \<Rightarrow> u8 \<times> dfu" where
  "Endpoint_Read_Byte s =
     (case out_queue s of
        [] \<Rightarrow> (0, s)
      | p # ps \<Rightarrow> (case p of [] \<Rightarrow> (0, s) | x # xs \<Rightarrow> (x, s\<lparr>out_queue := xs # ps\<rparr>)))"

definition Endpoint_Read_Word_LE :: "dfu \<Rightarrow> u16 \<times> dfu" where
  "Endpoint_Read_Word_LE s =
     (let (lo, s1) = Endpoint_Read_Byte s;
          (hi, s2) = Endpoint_Read_Byte s1
      in (push_bit 8 (ucast hi) OR ucast lo, s2))"

definition Endpoint_ClearOUT :: "dfu \<Rightarrow> dfu" where
  "Endpoint_ClearOUT s = emit EP_CLEAR_OUT (s\<lparr>out_queue := tl (out_queue s)\<rparr>)"

definition pgm_read_word :: "dfu \<Rightarrow> u16 \<Rightarrow> u16" where
  "pgm_read_word s a = push_bit 8 (ucast (flash s (a + 1))) OR ucast (flash s a)"

text \<open>
  Modelled from the spec: the board driver's paged continuous read is not among the
  sources. \<^verbatim>\<open>Dataflash_Configure_Read_Page_Offset\<close> positions the read at a page and an
  offset in it, and each \<^verbatim>\<open>Dataflash_ReceiveByte\<close> delivers the next cell.
\<close>

definition Dataflash_Configure_Read_Page_Offset :: "board \<Rightarrow> df_cmd \<Rightarrow> u32 \<Rightarrow> u32 \<Rightarrow> dfu \<Rightarrow> dfu" where
  "Dataflash_Configure_Read_Page_Offset b c page off s =
     emit (DF_CONFIG_READ c page off) (s\<lparr>df_pos := page * of_nat (DATAFLASH_PAGE_SIZE b) + off\<rparr>)"

definition Dataflash_ReceiveByte :: "dfu \<Rightarrow> u8 \<times> dfu" where
  "Dataflash_ReceiveByte s =
     (dataflash s (df_pos s), emit (DF_RECEIVE (df_pos s)) (s\<lparr>df_pos := df_pos s + 1\<rparr>))"

section \<open>The state machine\<close>

definition UpdateState :: "dfu \<Rightarrow> dfu" where
  "UpdateState s =
     (case DFU_State s of
        dfuDNLOAD_SYNC \<Rightarrow> s\<lparr>DFU_State := dfuDNLOAD_IDLE\<rparr>
      | dfuUPLOAD_IDLE \<Rightarrow> s\<lparr>DFU_State := dfuIDLE\<rparr>
      | dfuMANIFEST_SYNC \<Rightarrow> s\<lparr>DFU_State := dfuIDLE\<rparr>
      | _ \<Rightarrow> s)"

text \<open>The window fields of a command: two big-endian 16-bit values, and for the
  dataflash the 64KB page number above them.\<close>

definition addr16 :: "u8 \<Rightarrow> u8 \<Rightarrow> u16" where
  "addr16 hi lo = push_bit 8 (ucast hi) OR ucast lo"

definition addr32 :: "u8 \<Rightarrow> u8 \<Rightarrow> u8 \<Rightarrow> u32" where
  "addr32 page hi lo = push_bit 16 (ucast page) OR push_bit 8 (ucast hi) OR ucast lo"

definition startAddr16 :: "dfu \<Rightarrow> u16" where
  "startAddr16 s = addr16 (data (flipCommand s) 1) (data (flipCommand s) 2)"

definition endAddr16 :: "dfu \<Rightarrow> u16" where
  "endAddr16 s = addr16 (data (flipCommand s) 3) (data (flipCommand s) 4)"

definition startAddr32 :: "dfu \<Rightarrow> u32" where
  "startAddr32 s =
     addr32 (curFlash64KBPageNumber s) (data (flipCommand s) 1) (data (flipCommand s) 2)"

definition endAddr32 :: "dfu \<Rightarrow> u32" where
  "endAddr32 s =
     addr32 (curFlash64KBPageNumber s) (data (flipCommand s) 3) (data (flipCommand s) 4)"

section \<open>ProcessDownload\<close>

text \<open>
  The end of every packet of a Download stream:
  \<^verbatim>\<open>Endpoint_ClearOUT(); if(DFU_State == dfuDNBUSY) DFU_State = dfuDNLOAD_SYNC;\<close>
\<close>

definition packet_done :: "dfu \<Rightarrow> dfu" where
  "packet_done s =
     (let s1 = Endpoint_ClearOUT s
      in if DFU_State s1 = dfuDNBUSY then s1\<lparr>DFU_State := dfuDNLOAD_SYNC\<rparr> else s1)"

subsection \<open>Flash\<close>

text \<open>The body of \<^verbatim>\<open>if (curAddr%SPM_PAGESIZE==0)\<close>; the flag is the \<^verbatim>\<open>break\<close>.\<close>

definition flash_new_page :: "u16 \<Rightarrow> u16 \<Rightarrow> u16 \<Rightarrow> dfu \<Rightarrow> bool \<times> dfu" where
  "flash_new_page startAddr endAddr curAddr s =
     (let s1 = emit (PAGE_ERASE curAddr) s;
          s2 = (if curAddr \<noteq> startAddr then emit (PAGE_WRITE (curAddr - 2)) s1 else s1);
          s3 = emit RWW_ENABLE s2
      in if curAddr > endAddr then (True, s3\<lparr>DFU_State := dfuMANIFEST_SYNC\<rparr>)
         else (False, s3))"

text \<open>The \<^verbatim>\<open>for\<close> loop over one packet, two bytes at a time; it returns the cursor.\<close>

function flash_dl_packet :: "board \<Rightarrow> u16 \<Rightarrow> u16 \<Rightarrow> nat \<Rightarrow> u16 \<Rightarrow> dfu \<Rightarrow> u16 \<times> dfu" where
  "flash_dl_packet b startAddr endAddr i curAddr s =
     (if i < FIXED_CONTROL_ENDPOINT_SIZE b then
        (let (brk, s1) =
               (if unat curAddr mod SPM_PAGESIZE b = 0
                then flash_new_page startAddr endAddr curAddr s else (False, s))
         in if brk then (curAddr, s1)
            else (let (w, s2) = Endpoint_Read_Word_LE s1
                  in flash_dl_packet b startAddr endAddr (i + 2) (curAddr + 2)
                       (emit (PAGE_FILL curAddr w) s2)))
      else (curAddr, s))"
  by pat_completeness auto
termination
  by (relation "measure (\<lambda>(b, startAddr, endAddr, i, curAddr, s). FIXED_CONTROL_ENDPOINT_SIZE b - i)")
    auto

declare flash_dl_packet.simps [simp del]

subsection \<open>EEPROM\<close>

function eeprom_dl_packet :: "board \<Rightarrow> u16 \<Rightarrow> nat \<Rightarrow> u16 \<Rightarrow> dfu \<Rightarrow> u16 \<times> dfu" where
  "eeprom_dl_packet b endAddr i curAddr s =
     (if i < FIXED_CONTROL_ENDPOINT_SIZE b then
        (if curAddr > endAddr then (curAddr, s\<lparr>DFU_State := dfuMANIFEST_SYNC\<rparr>)
         else (let (v, s1) = Endpoint_Read_Byte s
               in eeprom_dl_packet b endAddr (i + 1) (curAddr + 1)
                    (emit (EEPROM_WRITE curAddr v) s1)))
      else (curAddr, s))"
  by pat_completeness auto
termination
  by (relation "measure (\<lambda>(b, endAddr, i, curAddr, s). FIXED_CONTROL_ENDPOINT_SIZE b - i)") auto

declare eeprom_dl_packet.simps [simp del]

subsection \<open>Dataflash\<close>

text \<open>The body of \<^verbatim>\<open>if (curAddr!=startAddr && curAddr%DATAFLASH_PAGE_SIZE==0)\<close>.\<close>

definition df_page_done :: "board \<Rightarrow> u32 \<Rightarrow> u32 \<Rightarrow> dfu \<Rightarrow> bool \<times> dfu" where
  "df_page_done b endAddr curAddr s =
     (let s1 = emit DF_TOGGLE_CS s;
          s2 = emit (DF_CONFIG_WRITE DF_CMD_BUFF1TOMAINMEMWITHERASE
                       (curAddr div of_nat (DATAFLASH_PAGE_SIZE b) - 1) 0) s1;
          s3 = emit DF_TOGGLE_CS s2;
          s4 = emit DF_WAIT_BUSY s3
      in if curAddr > endAddr
         then (True, (emit DF_DESELECT s4)\<lparr>DFU_State := dfuMANIFEST_SYNC\<rparr>)
         else (False, emit (DF_CONFIG_WRITE DF_CMD_BUFF1WRITE
                              (curAddr div of_nat (DATAFLASH_PAGE_SIZE b)) 0) s4))"

function df_dl_packet :: "board \<Rightarrow> u32 \<Rightarrow> u32 \<Rightarrow> nat \<Rightarrow> u32 \<Rightarrow> dfu \<Rightarrow> u32 \<times> dfu" where
  "df_dl_packet b startAddr endAddr i curAddr s =
     (if i < FIXED_CONTROL_ENDPOINT_SIZE b then
        (let (brk, s1) =
               (if curAddr \<noteq> startAddr \<and> unat curAddr mod DATAFLASH_PAGE_SIZE b = 0
                then df_page_done b endAddr curAddr s else (False, s))
         in if brk then (curAddr, s1)
            else (let (v, s2) = Endpoint_Read_Byte s1
                  in df_dl_packet b startAddr endAddr (i + 1) (curAddr + 1)
                       (emit (DF_SEND v) s2)))
      else (curAddr, s))"
  by pat_completeness auto
termination
  by (relation "measure (\<lambda>(b, startAddr, endAddr, i, curAddr, s). FIXED_CONTROL_ENDPOINT_SIZE b - i)")
    auto

declare df_dl_packet.simps [simp del]

subsection \<open>The stream of packets\<close>

text \<open>A packet loop reads bytes of the packet in the bank and leaves the queue as long
  as it was; acknowledging the packet shortens it.\<close>

lemma length_queue_Read_Byte:
  "length (out_queue (snd (Endpoint_Read_Byte s))) = length (out_queue s)"
  by (simp add: Endpoint_Read_Byte_def split: list.splits)

lemma length_queue_Read_Word:
  "length (out_queue (snd (Endpoint_Read_Word_LE s))) = length (out_queue s)"
proof -
  obtain lo s1 where a: "Endpoint_Read_Byte s = (lo, s1)"
    by (cases "Endpoint_Read_Byte s") auto
  obtain hi s2 where b: "Endpoint_Read_Byte s1 = (hi, s2)"
    by (cases "Endpoint_Read_Byte s1") auto
  from a b length_queue_Read_Byte [of s] length_queue_Read_Byte [of s1] show ?thesis
    by (simp add: Endpoint_Read_Word_LE_def)
qed

lemma out_queue_emit [simp]: "out_queue (emit c s) = out_queue s"
  by (simp add: emit_def)

lemma length_queue_flash_new_page:
  "length (out_queue (snd (flash_new_page st en cur s))) = length (out_queue s)"
  by (simp add: flash_new_page_def Let_def)

lemma length_queue_df_page_done:
  "length (out_queue (snd (df_page_done b en cur s))) = length (out_queue s)"
  by (simp add: df_page_done_def Let_def)

lemma length_queue_flash_dl_packet:
  "length (out_queue (snd (flash_dl_packet b st en i cur s))) = length (out_queue s)"
proof (induction b st en i cur s rule: flash_dl_packet.induct)
  case (1 b st en i cur s)
  show ?case
  proof (cases "i < FIXED_CONTROL_ENDPOINT_SIZE b")
    case False
    then show ?thesis by (simp add: flash_dl_packet.simps)
  next
    case True
    obtain brk s1 where p: "(if unat cur mod SPM_PAGESIZE b = 0
        then flash_new_page st en cur s else (False, s)) = (brk, s1)"
      by (cases "if unat cur mod SPM_PAGESIZE b = 0
        then flash_new_page st en cur s else (False, s)") auto
    have l1: "length (out_queue s1) = length (out_queue s)"
      using p length_queue_flash_new_page [of st en cur s] by (auto split: if_splits)
    show ?thesis
    proof (cases brk)
      case True
      with \<open>i < FIXED_CONTROL_ENDPOINT_SIZE b\<close> p l1 show ?thesis
        by (simp add: flash_dl_packet.simps [of b st en i cur s])
    next
      case False
      obtain w s2 where r: "Endpoint_Read_Word_LE s1 = (w, s2)"
        by (cases "Endpoint_Read_Word_LE s1") auto
      have l2: "length (out_queue s2) = length (out_queue s1)"
        using r length_queue_Read_Word [of s1] by simp
      have "length (out_queue (snd (flash_dl_packet b st en (i + 2) (cur + 2)
               (emit (PAGE_FILL cur w) s2)))) = length (out_queue (emit (PAGE_FILL cur w) s2))"
        using "1.IH" [OF True p [symmetric] refl False r [symmetric] refl] .
      with True False p r l1 l2 show ?thesis
        by (simp add: flash_dl_packet.simps [of b st en i cur s])
    qed
  qed
qed

lemma length_queue_eeprom_dl_packet:
  "length (out_queue (snd (eeprom_dl_packet b en i cur s))) = length (out_queue s)"
  apply (induction b en i cur s rule: eeprom_dl_packet.induct)
  apply (subst eeprom_dl_packet.simps)
  apply (auto split: prod.splits)
  apply (metis length_queue_Read_Byte snd_conv)
  done

lemma length_queue_df_dl_packet:
  "length (out_queue (snd (df_dl_packet b st en i cur s))) = length (out_queue s)"
  apply (induction b st en i cur s rule: df_dl_packet.induct)
  apply (subst df_dl_packet.simps)
  apply (auto split: prod.splits if_splits)
   apply (metis length_queue_Read_Byte length_queue_df_page_done snd_conv)+
  done

lemma length_queue_packet_done:
  "length (out_queue (packet_done s)) = length (out_queue s) - 1"
  by (simp add: packet_done_def Endpoint_ClearOUT_def Let_def)

lemma wait_OUT_Some: "wait_OUT s = Some s' \<Longrightarrow> s' = s \<and> out_queue s \<noteq> []"
  by (auto simp: wait_OUT_def split: if_splits)

text \<open>The \<^verbatim>\<open>while(DFU_State != dfuMANIFEST_SYNC)\<close> loops: one packet per round. They
  return the cursor with the state; \<open>None\<close> when the host stops sending.\<close>

function flash_dl_stream :: "board \<Rightarrow> u16 \<Rightarrow> u16 \<Rightarrow> u16 \<Rightarrow> dfu \<Rightarrow> (u16 \<times> dfu) option" where
  "flash_dl_stream b startAddr endAddr curAddr s =
     (if DFU_State s \<noteq> dfuMANIFEST_SYNC then
        (case wait_OUT s of
           None \<Rightarrow> None
         | Some s0 \<Rightarrow>
             (let (curAddr', s1) =
                    flash_dl_packet b startAddr endAddr 0 curAddr (s0\<lparr>DFU_State := dfuDNBUSY\<rparr>)
              in flash_dl_stream b startAddr endAddr curAddr' (packet_done s1)))
      else Some (curAddr, s))"
  by pat_completeness auto
termination
proof (relation "measure (\<lambda>(b, startAddr, endAddr, curAddr, s). length (out_queue s))", goal_cases)
  case 1
  show ?case by simp
next
  case (2 b startAddr endAddr curAddr s s0 p curAddr' s1)
  from 2(2) have s0: "s0 = s" and ne: "out_queue s \<noteq> []"
    by (auto dest: wait_OUT_Some)
  from 2(3,4) have "flash_dl_packet b startAddr endAddr 0 curAddr (s\<lparr>DFU_State := dfuDNBUSY\<rparr>)
      = (curAddr', s1)"
    by (simp add: s0)
  then have "length (out_queue s1) = length (out_queue (s\<lparr>DFU_State := dfuDNBUSY\<rparr>))"
    using length_queue_flash_dl_packet [of b startAddr endAddr 0 curAddr "s\<lparr>DFU_State := dfuDNBUSY\<rparr>"]
    by simp
  with ne show ?case
    by (simp add: length_queue_packet_done)
qed

declare flash_dl_stream.simps [simp del]

function eeprom_dl_stream :: "board \<Rightarrow> u16 \<Rightarrow> u16 \<Rightarrow> dfu \<Rightarrow> (u16 \<times> dfu) option" where
  "eeprom_dl_stream b endAddr curAddr s =
     (if DFU_State s \<noteq> dfuMANIFEST_SYNC then
        (case wait_OUT s of
           None \<Rightarrow> None
         | Some s0 \<Rightarrow>
             (let (curAddr', s1) =
                    eeprom_dl_packet b endAddr 0 curAddr (s0\<lparr>DFU_State := dfuDNBUSY\<rparr>)
              in eeprom_dl_stream b endAddr curAddr' (packet_done s1)))
      else Some (curAddr, s))"
  by pat_completeness auto
termination
proof (relation "measure (\<lambda>(b, endAddr, curAddr, s). length (out_queue s))", goal_cases)
  case 1
  show ?case by simp
next
  case (2 b endAddr curAddr s s0 p curAddr' s1)
  from 2(2) have s0: "s0 = s" and ne: "out_queue s \<noteq> []"
    by (auto dest: wait_OUT_Some)
  from 2(3,4) have "eeprom_dl_packet b endAddr 0 curAddr (s\<lparr>DFU_State := dfuDNBUSY\<rparr>)
      = (curAddr', s1)"
    by (simp add: s0)
  then have "length (out_queue s1) = length (out_queue (s\<lparr>DFU_State := dfuDNBUSY\<rparr>))"
    using length_queue_eeprom_dl_packet [of b endAddr 0 curAddr "s\<lparr>DFU_State := dfuDNBUSY\<rparr>"]
    by simp
  with ne show ?case
    by (simp add: length_queue_packet_done)
qed

declare eeprom_dl_stream.simps [simp del]

function df_dl_stream :: "board \<Rightarrow> u32 \<Rightarrow> u32 \<Rightarrow> u32 \<Rightarrow> dfu \<Rightarrow> (u32 \<times> dfu) option" where
  "df_dl_stream b startAddr endAddr curAddr s =
     (if DFU_State s \<noteq> dfuMANIFEST_SYNC then
        (case wait_OUT s of
           None \<Rightarrow> None
         | Some s0 \<Rightarrow>
             (let (curAddr', s1) =
                    df_dl_packet b startAddr endAddr 0 curAddr (s0\<lparr>DFU_State := dfuDNBUSY\<rparr>)
              in df_dl_stream b startAddr endAddr curAddr' (packet_done s1)))
      else Some (curAddr, s))"
  by pat_completeness auto
termination
proof (relation "measure (\<lambda>(b, startAddr, endAddr, curAddr, s). length (out_queue s))", goal_cases)
  case 1
  show ?case by simp
next
  case (2 b startAddr endAddr curAddr s s0 p curAddr' s1)
  from 2(2) have s0: "s0 = s" and ne: "out_queue s \<noteq> []"
    by (auto dest: wait_OUT_Some)
  from 2(3,4) have "df_dl_packet b startAddr endAddr 0 curAddr (s\<lparr>DFU_State := dfuDNBUSY\<rparr>)
      = (curAddr', s1)"
    by (simp add: s0)
  then have "length (out_queue s1) = length (out_queue (s\<lparr>DFU_State := dfuDNBUSY\<rparr>))"
    using length_queue_df_dl_packet [of b startAddr endAddr 0 curAddr "s\<lparr>DFU_State := dfuDNBUSY\<rparr>"]
    by simp
  with ne show ?case
    by (simp add: length_queue_packet_done)
qed

declare df_dl_stream.simps [simp del]

text \<open>\<^verbatim>\<open>ProcessDownload\<close>: the target is chosen by \<^verbatim>\<open>flipCommand.data[0]\<close>.\<close>

definition ProcessDownload :: "board \<Rightarrow> dfu \<Rightarrow> dfu option" where
  "ProcessDownload b s =
     (if data (flipCommand s) 0 = 0x00 then
        (if DFU_State s \<noteq> dfuIDLE then Some (s\<lparr>DFU_State := dfuERROR\<rparr>)
         else map_option snd (flash_dl_stream b (startAddr16 s) (endAddr16 s) (startAddr16 s) s))
      else if data (flipCommand s) 0 = 0x01 then
        (if DFU_State s \<noteq> dfuIDLE then Some (s\<lparr>DFU_State := dfuERROR\<rparr>)
         else map_option snd (eeprom_dl_stream b (endAddr16 s) (startAddr16 s) s))
      else if data (flipCommand s) 0 = 0x10 then
        (if DFU_State s \<noteq> dfuIDLE then Some (s\<lparr>DFU_State := dfuERROR\<rparr>)
         else
           (let s1 = emit DF_SELECT s;
                s2 = emit (DF_CONFIG_WRITE DF_CMD_BUFF1WRITE
                             (startAddr32 s div of_nat (DATAFLASH_PAGE_SIZE b))
                             (startAddr32 s mod of_nat (DATAFLASH_PAGE_SIZE b))) s1
            in map_option snd (df_dl_stream b (startAddr32 s) (endAddr32 s) (startAddr32 s) s2)))
      else Some s)"

section \<open>ProcessUpload\<close>

subsection \<open>Display data: one IN packet per round\<close>

function flash_ul_packet :: "board \<Rightarrow> nat \<Rightarrow> u16 \<Rightarrow> dfu \<Rightarrow> u16 \<times> dfu" where
  "flash_ul_packet b i curAddr s =
     (if i < FIXED_CONTROL_ENDPOINT_SIZE b then
        flash_ul_packet b (i + 2) (curAddr + 2)
          (emit (EP_WRITE_WORD_LE (pgm_read_word s curAddr)) (emit (PGM_READ_WORD curAddr) s))
      else (curAddr, s))"
  by pat_completeness auto
termination
  by (relation "measure (\<lambda>(b, i, curAddr, s). FIXED_CONTROL_ENDPOINT_SIZE b - i)") auto

declare flash_ul_packet.simps [simp del]

function eeprom_ul_packet :: "board \<Rightarrow> nat \<Rightarrow> u16 \<Rightarrow> dfu \<Rightarrow> u16 \<times> dfu" where
  "eeprom_ul_packet b i curAddr s =
     (if i < FIXED_CONTROL_ENDPOINT_SIZE b then
        eeprom_ul_packet b (i + 1) (curAddr + 1)
          (emit (EP_WRITE_BYTE (eeprom s curAddr)) (emit (EEPROM_READ curAddr) s))
      else (curAddr, s))"
  by pat_completeness auto
termination
  by (relation "measure (\<lambda>(b, i, curAddr, s). FIXED_CONTROL_ENDPOINT_SIZE b - i)") auto

declare eeprom_ul_packet.simps [simp del]

function df_ul_packet :: "board \<Rightarrow> nat \<Rightarrow> u32 \<Rightarrow> dfu \<Rightarrow> u32 \<times> dfu" where
  "df_ul_packet b i curAddr s =
     (if i < FIXED_CONTROL_ENDPOINT_SIZE b then
        (let (v, s1) = Dataflash_ReceiveByte s
         in df_ul_packet b (i + 1) (curAddr + 1) (emit (EP_WRITE_BYTE v) s1))
      else (curAddr, s))"
  by pat_completeness auto
termination
  by (relation "measure (\<lambda>(b, i, curAddr, s). FIXED_CONTROL_ENDPOINT_SIZE b - i)") auto

declare df_ul_packet.simps [simp del]

lemma in_ready_emit [simp]: "in_ready (emit c s) = in_ready s"
  by (simp add: emit_def)

lemma in_ready_flash_ul_packet:
  "in_ready (snd (flash_ul_packet b i cur s)) = in_ready s"
  apply (induction b i cur s rule: flash_ul_packet.induct)
  apply (subst flash_ul_packet.simps)
  apply auto
  done

lemma in_ready_eeprom_ul_packet:
  "in_ready (snd (eeprom_ul_packet b i cur s)) = in_ready s"
  apply (induction b i cur s rule: eeprom_ul_packet.induct)
  apply (subst eeprom_ul_packet.simps)
  apply auto
  done

lemma in_ready_df_ul_packet:
  "in_ready (snd (df_ul_packet b i cur s)) = in_ready s"
  apply (induction b i cur s rule: df_ul_packet.induct)
  apply (subst df_ul_packet.simps)
  apply (auto simp: Dataflash_ReceiveByte_def)
  done

lemma wait_IN_Some: "wait_IN s = Some s' \<Longrightarrow> in_ready s' < in_ready s"
  by (auto simp: wait_IN_def split: if_splits)

text \<open>The \<^verbatim>\<open>while(curAddr < endAddr)\<close> loops. \<open>None\<close> when the host stops collecting,
  which is also what a cursor that wraps around below \<open>endAddr\<close> for ever comes to.\<close>

function flash_ul_stream :: "board \<Rightarrow> u16 \<Rightarrow> u16 \<Rightarrow> dfu \<Rightarrow> (u16 \<times> dfu) option" where
  "flash_ul_stream b endAddr curAddr s =
     (if curAddr < endAddr then
        (case wait_IN s of
           None \<Rightarrow> None
         | Some s0 \<Rightarrow>
             (let (curAddr', s1) = flash_ul_packet b 0 curAddr s0
              in flash_ul_stream b endAddr curAddr' (emit EP_CLEAR_IN s1)))
      else Some (curAddr, s))"
  by pat_completeness auto
termination
proof (relation "measure (\<lambda>(b, endAddr, curAddr, s). in_ready s)", goal_cases)
  case 1
  show ?case by simp
next
  case (2 b endAddr curAddr s s0 p curAddr' s1)
  from 2(3,4) have "flash_ul_packet b 0 curAddr s0 = (curAddr', s1)" by simp
  then have "in_ready s1 = in_ready s0"
    using in_ready_flash_ul_packet [of b 0 curAddr s0] by simp
  with wait_IN_Some [OF 2(2)] show ?case by simp
qed

declare flash_ul_stream.simps [simp del]

function eeprom_ul_stream :: "board \<Rightarrow> u16 \<Rightarrow> u16 \<Rightarrow> dfu \<Rightarrow> (u16 \<times> dfu) option" where
  "eeprom_ul_stream b endAddr curAddr s =
     (if curAddr < endAddr then
        (case wait_IN s of
           None \<Rightarrow> None
         | Some s0 \<Rightarrow>
             (let (curAddr', s1) = eeprom_ul_packet b 0 curAddr s0
              in eeprom_ul_stream b endAddr curAddr' (emit EP_CLEAR_IN s1)))
      else Some (curAddr, s))"
  by pat_completeness auto
termination
proof (relation "measure (\<lambda>(b, endAddr, curAddr, s). in_ready s)", goal_cases)
  case 1
  show ?case by simp
next
  case (2 b endAddr curAddr s s0 p curAddr' s1)
  from 2(3,4) have "eeprom_ul_packet b 0 curAddr s0 = (curAddr', s1)" by simp
  then have "in_ready s1 = in_ready s0"
    using in_ready_eeprom_ul_packet [of b 0 curAddr s0] by simp
  with wait_IN_Some [OF 2(2)] show ?case by simp
qed

declare eeprom_ul_stream.simps [simp del]

function df_ul_stream :: "board \<Rightarrow> u32 \<Rightarrow> u32 \<Rightarrow> dfu \<Rightarrow> (u32 \<times> dfu) option" where
  "df_ul_stream b endAddr curAddr s =
     (if curAddr < endAddr then
        (case wait_IN s of
           None \<Rightarrow> None
         | Some s0 \<Rightarrow>
             (let (curAddr', s1) = df_ul_packet b 0 curAddr s0
              in df_ul_stream b endAddr curAddr' (emit EP_CLEAR_IN s1)))
      else Some (curAddr, s))"
  by pat_completeness auto
termination
proof (relation "measure (\<lambda>(b, endAddr, curAddr, s). in_ready s)", goal_cases)
  case 1
  show ?case by simp
next
  case (2 b endAddr curAddr s s0 p curAddr' s1)
  from 2(3,4) have "df_ul_packet b 0 curAddr s0 = (curAddr', s1)" by simp
  then have "in_ready s1 = in_ready s0"
    using in_ready_df_ul_packet [of b 0 curAddr s0] by simp
  with wait_IN_Some [OF 2(2)] show ?case by simp
qed

declare df_ul_stream.simps [simp del]

subsection \<open>Blank check\<close>

lemma unat_succ_less:
  fixes a :: "'a::len word"
  assumes "a < b"
  shows "unat (a + 1) = Suc (unat a)"
proof -
  have "a \<noteq> - 1"
    using assms by (auto simp: word_order.extremum_strict)
  then have "1 + a \<noteq> 0"
    by (metis add.commute add_eq_0_iff)
  then show ?thesis
    using unatSuc [of a] by (simp add: add.commute)
qed

text \<open>\<^verbatim>\<open>for(curAddr=startAddr;curAddr<endAddr;curAddr++)\<close> over the flash, with its
  \<^verbatim>\<open>break\<close> at the first byte that is not 0xFF.\<close>

function flash_blank_check :: "u16 \<Rightarrow> u16 \<Rightarrow> dfu \<Rightarrow> dfu" where
  "flash_blank_check endAddr curAddr s =
     (if curAddr < endAddr then
        (let s1 = emit (PGM_READ_BYTE curAddr) s
         in if flash s curAddr \<noteq> 0xFF
            then s1\<lparr>DFU_State := dfuERROR, DFU_Status := errCHECK_ERASED, nonBlankAddr := curAddr\<rparr>
            else flash_blank_check endAddr (curAddr + 1) s1)
      else s)"
  by pat_completeness auto
termination
  by (relation "measure (\<lambda>(endAddr, curAddr, s). unat endAddr - unat curAddr)")
    (auto simp: unat_succ_less word_less_nat_alt)

declare flash_blank_check.simps [simp del]

text \<open>The same loop over the dataflash: the cursor is 32 bits wide, and the assignment
  to the 16-bit \<^verbatim>\<open>nonBlankAddr\<close> keeps its low half.\<close>

function df_blank_check :: "u32 \<Rightarrow> u32 \<Rightarrow> dfu \<Rightarrow> dfu" where
  "df_blank_check endAddr curAddr s =
     (if curAddr < endAddr then
        (let (v, s1) = Dataflash_ReceiveByte s
         in if v \<noteq> 0xFF
            then s1\<lparr>DFU_State := dfuERROR, DFU_Status := errCHECK_ERASED,
                    nonBlankAddr := ucast curAddr\<rparr>
            else df_blank_check endAddr (curAddr + 1) s1)
      else s)"
  by pat_completeness auto
termination
  by (relation "measure (\<lambda>(endAddr, curAddr, s). unat endAddr - unat curAddr)")
    (auto simp: unat_succ_less word_less_nat_alt)

declare df_blank_check.simps [simp del]

text \<open>\<^verbatim>\<open>ProcessUpload\<close>. The branch for \<^verbatim>\<open>data[0] == 0x03\<close> (blank check of the EEPROM)
  is commented out in the source, so that value reaches no branch.\<close>

definition ProcessUpload :: "board \<Rightarrow> dfu \<Rightarrow> dfu option" where
  "ProcessUpload b s =
     (if data (flipCommand s) 0 = 0x00 then
        (if DFU_State s \<noteq> dfuIDLE then Some (s\<lparr>DFU_State := dfuERROR\<rparr>)
         else map_option snd
                (flash_ul_stream b (endAddr16 s) (startAddr16 s) (s\<lparr>DFU_State := dfuUPLOAD_IDLE\<rparr>)))
      else if data (flipCommand s) 0 = 0x01 then
        Some (flash_blank_check (endAddr16 s) (startAddr16 s) s)
      else if data (flipCommand s) 0 = 0x02 then
        (if DFU_State s \<noteq> dfuIDLE then Some (s\<lparr>DFU_State := dfuERROR\<rparr>)
         else map_option snd
                (eeprom_ul_stream b (endAddr16 s) (startAddr16 s) (s\<lparr>DFU_State := dfuUPLOAD_IDLE\<rparr>)))
      else if data (flipCommand s) 0 = 0x10 then
        (if DFU_State s \<noteq> dfuIDLE then Some (s\<lparr>DFU_State := dfuERROR\<rparr>)
         else
           (let s1 = emit DF_SELECT (s\<lparr>DFU_State := dfuUPLOAD_IDLE\<rparr>);
                s2 = Dataflash_Configure_Read_Page_Offset b DF_CMD_CONTARRAYREAD_LF
                       (startAddr32 s div of_nat (DATAFLASH_PAGE_SIZE b))
                       (startAddr32 s mod of_nat (DATAFLASH_PAGE_SIZE b)) s1
            in map_option (emit DF_DESELECT \<circ> snd)
                 (df_ul_stream b (endAddr32 s) (startAddr32 s) s2)))
      else if data (flipCommand s) 0 = 0x11 then
        (let s1 = emit DF_SELECT s;
             s2 = Dataflash_Configure_Read_Page_Offset b DF_CMD_CONTARRAYREAD_LF
                    (startAddr32 s div of_nat (DATAFLASH_PAGE_SIZE b))
                    (startAddr32 s mod of_nat (DATAFLASH_PAGE_SIZE b)) s1
         in Some (emit DF_DESELECT (df_blank_check (endAddr32 s) (startAddr32 s) s2)))
      else Some s)"

section \<open>ProcessExec, ProcessRead, ProcessSelect\<close>

text \<open>\<^verbatim>\<open>for(uint16_t curAddr=0;curAddr<BOOT_START_ADDR;curAddr+=SPM_PAGESIZE)\<close>. The
  cursor is a 16-bit word and wraps around as it does in the code, while the bound is
  the constant itself: where the cursor can never reach it the loop does not end, and the
  result is \<open>None\<close>.\<close>

partial_function (option) erase_flash_pages :: "board \<Rightarrow> u16 \<Rightarrow> dfu \<Rightarrow> dfu option" where
  "erase_flash_pages b curAddr s =
     (if unat curAddr < BOOT_START_ADDR b
      then erase_flash_pages b (curAddr + of_nat (SPM_PAGESIZE b)) (emit (PAGE_ERASE curAddr) s)
      else Some s)"

definition start_application :: "dfu \<Rightarrow> dfu" where
  "start_application s =
     (if data (flipCommand s) 1 = 0x00 then emit WDT_ENABLE s
      else if data (flipCommand s) 1 = 0x01
      then s\<lparr>AppStartPtr := addr16 (data (flipCommand s) 3) (data (flipCommand s) 4)\<rparr>
      else s)"

definition ProcessExec :: "board \<Rightarrow> dfu \<Rightarrow> dfu option" where
  "ProcessExec b s =
     (let d0 = data (flipCommand s) 0;
          d1 = data (flipCommand s) 1
      in Option.bind
           (if d0 = 0x00 \<and> d1 = 0xFF
            then map_option (emit RWW_ENABLE) (erase_flash_pages b 0 s)
            else Some s)
           (\<lambda>s1. Some
              (if d0 = 0x01 \<and> d1 = 0xFF
               then fold (\<lambda>curAddr. emit (EEPROM_WRITE (of_nat curAddr) 0xFF)) [0..<512] s1
               else if d0 = 0x10 \<and> d1 = 0xFF
               then (emit DF_DESELECT \<circ> emit DF_WAIT_BUSY \<circ> emit DF_TOGGLE_CS \<circ> emit (DF_SEND 0x9A)
                     \<circ> emit (DF_SEND 0x80) \<circ> emit (DF_SEND 0x94) \<circ> emit (DF_SEND 0xC7)
                     \<circ> emit DF_SELECT) s1
               else if d0 = 0x01 then s1
               else if d0 = 0x03 then start_application s1
               else s1)))"

text \<open>The two nested \<^verbatim>\<open>switch\<close>es of \<^verbatim>\<open>ProcessRead\<close>: the byte to send, if any.\<close>

definition read_info :: "USB_FLIP_Command_t \<Rightarrow> u8 option" where
  "read_info c =
     (if data c 0 = 0x00 then
        (if data c 1 = 0x00 then Some BOOTLOADER_VERSION
         else if data c 1 = 0x01 then Some BOOTLOADER_ID_BYTE1
         else if data c 1 = 0x02 then Some BOOTLOADER_ID_BYTE2
         else None)
      else if data c 0 = 0x01 then
        (if data c 1 = 0x30 then Some MANUFACTURER_CODE
         else if data c 1 = 0x31 then Some FAMILY_CODE
         else if data c 1 = 0x60 then Some PRODUCT_NAME
         else if data c 1 = 0x61 then Some PRODUCT_REVISION
         else None)
      else None)"

definition ProcessRead :: "dfu \<Rightarrow> dfu option" where
  "ProcessRead s =
     (case wait_IN s of
        None \<Rightarrow> None
      | Some s0 \<Rightarrow>
          Some (emit EP_CLEAR_IN
                  (case read_info (flipCommand s0) of
                     None \<Rightarrow> s0
                   | Some v \<Rightarrow> emit (EP_WRITE_BYTE v) s0)))"

definition ProcessSelect :: "dfu \<Rightarrow> dfu option" where
  "ProcessSelect s =
     Some (if data (flipCommand s) 0 = 0x03 \<and> data (flipCommand s) 1 = 0x00
           then s\<lparr>curFlash64KBPageNumber := data (flipCommand s) 2\<rparr> else s)"

definition ProcessFlipCommand :: "board \<Rightarrow> dfu \<Rightarrow> dfu option" where
  "ProcessFlipCommand b s =
     (if group (flipCommand s) = CMD_GROUP_DOWNLOAD then ProcessDownload b s
      else if group (flipCommand s) = CMD_GROUP_UPLOAD then ProcessUpload b s
      else if group (flipCommand s) = CMD_GROUP_EXEC then ProcessExec b s
      else if group (flipCommand s) = CMD_GROUP_READ then ProcessRead s
      else if group (flipCommand s) = CMD_GROUP_SELECT then ProcessSelect s
      else Some s)"

section \<open>The control request handler\<close>

text \<open>Retrieving the FLIP command from the first OUT packet of a \<^verbatim>\<open>DFU_DNLOAD\<close>:
  the group byte, then \<^verbatim>\<open>for(uint8_t i=0;i<5 && i<(wLength-1);i++)\<close>, then the
  acknowledgement, which discards the rest of the packet.\<close>

definition read_data_byte :: "nat \<Rightarrow> dfu \<Rightarrow> dfu" where
  "read_data_byte i s =
     (let (v, s1) = Endpoint_Read_Byte s
      in s1\<lparr>flipCommand := (flipCommand s1)\<lparr>data := (data (flipCommand s1))(i := v)\<rparr>\<rparr>)"

definition receive_command :: "USB_Request \<Rightarrow> dfu \<Rightarrow> dfu" where
  "receive_command r s =
     (let (g, s1) = Endpoint_Read_Byte s;
          s2 = s1\<lparr>flipCommand := (flipCommand s1)\<lparr>group := g\<rparr>\<rparr>;
          s3 = fold read_data_byte [0..<min 5 (unat (wLength r) - 1)] s2
      in Endpoint_ClearOUT s3)"

definition is_blank_check :: "USB_FLIP_Command_t \<Rightarrow> bool" where
  "is_blank_check c \<longleftrightarrow>
     (group c = CMD_GROUP_UPLOAD \<and> data c 0 = 0x01) \<or>
     (group c = CMD_GROUP_UPLOAD \<and> data c 0 = 0x03) \<or>
     (group c = CMD_GROUP_UPLOAD \<and> data c 0 = 0x11)"

text \<open>The condition under which a \<^verbatim>\<open>DFU_DNLOAD\<close> clears \<^verbatim>\<open>waitForSecondRequest\<close>.\<close>

definition processed_in_dnload :: "USB_FLIP_Command_t \<Rightarrow> bool" where
  "processed_in_dnload c \<longleftrightarrow>
     group c = CMD_GROUP_DOWNLOAD \<or> is_blank_check c \<or>
     group c = CMD_GROUP_EXEC \<or> group c = CMD_GROUP_SELECT"

text \<open>\<^verbatim>\<open>case DFU_GETSTATUS\<close>, which \<^verbatim>\<open>case DFU_UPLOAD\<close> falls into.\<close>

definition case_GETSTATUS :: "dfu \<Rightarrow> dfu option" where
  "case_GETSTATUS s =
     (case wait_IN (UpdateState s) of
        None \<Rightarrow> None
      | Some s1 \<Rightarrow>
          Some ((emit EP_CLEAR_IN \<circ> emit (EP_WRITE_BYTE 0)
                 \<circ> emit (EP_WRITE_BYTE (state_byte (DFU_State s1)))
                 \<circ> emit (EP_WRITE_BYTE 0) \<circ> emit (EP_WRITE_BYTE 0) \<circ> emit (EP_WRITE_BYTE 0)
                 \<circ> emit (EP_WRITE_BYTE (status_byte (DFU_Status s1)))) s1))"

definition case_DNLOAD :: "board \<Rightarrow> USB_Request \<Rightarrow> dfu \<Rightarrow> dfu option" where
  "case_DNLOAD b r s =
     (if wLength r \<noteq> 0 then
        (case wait_OUT s of
           None \<Rightarrow> None
         | Some s0 \<Rightarrow>
             (let s1 = receive_command r s0;
                  s2 = s1\<lparr>waitForSecondRequest := \<not> processed_in_dnload (flipCommand s1)\<rparr>
              in if \<not> waitForSecondRequest s2 then ProcessFlipCommand b s2 else Some s2))
      else None)"

definition case_UPLOAD :: "board \<Rightarrow> dfu \<Rightarrow> dfu option" where
  "case_UPLOAD b s =
     (if is_blank_check (flipCommand s) then
        (case wait_IN s of
           None \<Rightarrow> None
         | Some s0 \<Rightarrow> Some (emit EP_CLEAR_IN (emit (EP_WRITE_WORD_LE (nonBlankAddr s0)) s0)))
      else
        (case ProcessFlipCommand b s of
           None \<Rightarrow> None
         | Some s1 \<Rightarrow> case_GETSTATUS s1))"

text \<open>\<^verbatim>\<open>EVENT_USB_Device_UnhandledControlRequest\<close>. \<open>None\<close>: the handler does not return
  (a wait the host never ends, or, for a \<^verbatim>\<open>DFU_DNLOAD\<close> without data, the jump into the
  application after \<^verbatim>\<open>ResetHardware\<close>).\<close>

definition EVENT_USB_Device_UnhandledControlRequest :: "board \<Rightarrow> USB_Request \<Rightarrow> dfu \<Rightarrow> dfu option" where
  "EVENT_USB_Device_UnhandledControlRequest b r s =
     map_option (emit EP_CLEAR_STATUS_STAGE)
       (let s0 = emit EP_CLEAR_SETUP s
        in if bRequest r = DFU_DETACH then Some s0
           else if bRequest r = DFU_DNLOAD then case_DNLOAD b r s0
           else if bRequest r = DFU_UPLOAD then case_UPLOAD b s0
           else if bRequest r = DFU_GETSTATUS then case_GETSTATUS s0
           else if bRequest r = DFU_CLRSTATUS then Some (s0\<lparr>DFU_State := dfuIDLE, DFU_Status := OK\<rparr>)
           else if bRequest r = DFU_GETSTATE then
             (case wait_IN s0 of
                None \<Rightarrow> None
              | Some s1 \<Rightarrow> Some (emit EP_CLEAR_IN (emit (EP_WRITE_BYTE (state_byte (DFU_State s1))) s1)))
           else if bRequest r = DFU_ABORT then Some (s0\<lparr>DFU_State := dfuIDLE, DFU_Status := OK\<rparr>)
           else Some s0)"

text \<open>The USB task serving one control request after the other.\<close>

fun serve :: "board \<Rightarrow> USB_Request list \<Rightarrow> dfu \<Rightarrow> dfu option" where
  "serve b [] s = Some s"
| "serve b (r # rs) s =
     (case EVENT_USB_Device_UnhandledControlRequest b r s of
        None \<Rightarrow> None
      | Some s' \<Rightarrow> serve b rs s')"

section \<open>Sample configuration and states\<close>

text \<open>A configuration for the ATmega32U2 (128-byte flash pages, boot section at
  0x7000) with 32-byte control packets, and the globals as they are after reset, with
  all memories erased.\<close>

definition sample_board :: board where
  "sample_board = \<lparr>FIXED_CONTROL_ENDPOINT_SIZE = 32, SPM_PAGESIZE = 128,
     DATAFLASH_PAGE_SIZE = 256, BOOT_START_ADDR = 0x7000\<rparr>"

definition reset_state :: dfu where
  "reset_state = \<lparr>waitForSecondRequest = False,
     flipCommand = \<lparr>group = 0, data = (\<lambda>i. 0)\<rparr>,
     DFU_State = dfuIDLE, DFU_Status = OK, nonBlankAddr = 0, AppStartPtr = 0,
     curFlash64KBPageNumber = 0, out_queue = [], in_ready = 0,
     flash = (\<lambda>a. 0xFF), eeprom = (\<lambda>a. 0xFF), dataflash = (\<lambda>a. 0xFF),
     df_pos = 0, trace = []\<rparr>"

text \<open>A command with the given group and leading data bytes.\<close>

definition command :: "u8 \<Rightarrow> u8 list \<Rightarrow> USB_FLIP_Command_t" where
  "command g ds = \<lparr>group = g, data = (\<lambda>i. if i < length ds then ds ! i else 0)\<rparr>"

section \<open>Polling, clearing and aborting\<close>

lemma event_getstatus:
  assumes "bRequest r = DFU_GETSTATUS" "0 < in_ready s"
  shows "\<exists>s'. EVENT_USB_Device_UnhandledControlRequest b r s = Some s'
           \<and> DFU_State s' = DFU_State (UpdateState s) \<and> in_ready s' = in_ready s - 1"
  using assms
  by (simp add: EVENT_USB_Device_UnhandledControlRequest_def request_defs case_GETSTATUS_def
      wait_IN_def UpdateState_def emit_def split: DFU_State_t.splits)

lemma UpdateState_fixed:
  "DFU_State s \<in> {dfuIDLE, dfuDNLOAD_IDLE, dfuERROR} \<Longrightarrow> UpdateState s = s"
  by (auto simp: UpdateState_def)

lemma serve_polls:
  assumes "bRequest r = DFU_GETSTATUS" "DFU_State s \<in> {dfuIDLE, dfuDNLOAD_IDLE, dfuERROR}"
    "n \<le> in_ready s"
  shows "\<exists>s'. serve b (replicate n r) s = Some s' \<and> DFU_State s' = DFU_State s"
  using assms(2,3)
proof (induction n arbitrary: s)
  case 0
  then show ?case by simp
next
  case (Suc n)
  from Suc.prems obtain s1 where
    s1: "EVENT_USB_Device_UnhandledControlRequest b r s = Some s1"
      "DFU_State s1 = DFU_State (UpdateState s)" "in_ready s1 = in_ready s - 1"
    using event_getstatus [OF assms(1), of s b] by auto
  with Suc.prems have "DFU_State s1 = DFU_State s" "n \<le> in_ready s1"
    "DFU_State s1 \<in> {dfuIDLE, dfuDNLOAD_IDLE, dfuERROR}"
    by (simp_all add: UpdateState_fixed)
  with Suc.IH [of s1] s1(1) show ?case by auto
qed

text \<open>
  C6. \<^verbatim>\<open>UpdateState\<close>, called on every \<^verbatim>\<open>DFU_GETSTATUS\<close>, takes \<open>dfuDNLOAD_SYNC\<close> to
  \<open>dfuDNLOAD_IDLE\<close>, \<open>dfuUPLOAD_IDLE\<close> to \<open>dfuIDLE\<close> and \<open>dfuMANIFEST_SYNC\<close> to
  \<open>dfuIDLE\<close>, and changes nothing in any other state; the state after a served
  \<^verbatim>\<open>DFU_GETSTATUS\<close> is the one \<^verbatim>\<open>UpdateState\<close> gives; and any number of polls that the
  host collects, made in \<open>dfuIDLE\<close>, \<open>dfuDNLOAD_IDLE\<close> or \<open>dfuERROR\<close>, leaves the state
  as it was.
\<close>

theorem C6_poll_transition:
  "UpdateState (s\<lparr>DFU_State := dfuDNLOAD_SYNC\<rparr>) = s\<lparr>DFU_State := dfuDNLOAD_IDLE\<rparr>
   \<and> UpdateState (s\<lparr>DFU_State := dfuUPLOAD_IDLE\<rparr>) = s\<lparr>DFU_State := dfuIDLE\<rparr>
   \<and> UpdateState (s\<lparr>DFU_State := dfuMANIFEST_SYNC\<rparr>) = s\<lparr>DFU_State := dfuIDLE\<rparr>
   \<and> (DFU_State s \<notin> {dfuDNLOAD_SYNC, dfuUPLOAD_IDLE, dfuMANIFEST_SYNC} \<longrightarrow> UpdateState s = s)
   \<and> (bRequest r = DFU_GETSTATUS \<and> 0 < in_ready s \<longrightarrow>
        (\<exists>s'. EVENT_USB_Device_UnhandledControlRequest b r s = Some s'
              \<and> DFU_State s' = DFU_State (UpdateState s)))
   \<and> (bRequest r = DFU_GETSTATUS \<and> DFU_State s \<in> {dfuIDLE, dfuDNLOAD_IDLE, dfuERROR}
        \<and> n \<le> in_ready s \<longrightarrow>
        (\<exists>s'. serve b (replicate n r) s = Some s' \<and> DFU_State s' = DFU_State s))"
proof -
  have "DFU_State s \<notin> {dfuDNLOAD_SYNC, dfuUPLOAD_IDLE, dfuMANIFEST_SYNC} \<longrightarrow> UpdateState s = s"
    by (cases "DFU_State s") (simp_all add: UpdateState_def)
  moreover have "bRequest r = DFU_GETSTATUS \<and> 0 < in_ready s \<longrightarrow>
        (\<exists>s'. EVENT_USB_Device_UnhandledControlRequest b r s = Some s'
              \<and> DFU_State s' = DFU_State (UpdateState s))"
    using event_getstatus [of r s b] by blast
  moreover have "bRequest r = DFU_GETSTATUS \<and> DFU_State s \<in> {dfuIDLE, dfuDNLOAD_IDLE, dfuERROR}
        \<and> n \<le> in_ready s \<longrightarrow>
        (\<exists>s'. serve b (replicate n r) s = Some s' \<and> DFU_State s' = DFU_State s)"
    using serve_polls [of r s n b] by blast
  ultimately show ?thesis
    by (simp add: UpdateState_def)
qed

theorem C6_poll_transition_witness:
  "UpdateState (reset_state\<lparr>DFU_State := dfuDNBUSY\<rparr>) = reset_state\<lparr>DFU_State := dfuDNBUSY\<rparr>
   \<and> map_option DFU_State
        (EVENT_USB_Device_UnhandledControlRequest sample_board
           \<lparr>bRequest = DFU_GETSTATUS, wLength = 6\<rparr>
           (reset_state\<lparr>DFU_State := dfuDNLOAD_SYNC, in_ready := 3\<rparr>)) = Some dfuDNLOAD_IDLE
   \<and> map_option DFU_State
        (serve sample_board (replicate 3 \<lparr>bRequest = DFU_GETSTATUS, wLength = 6\<rparr>)
           (reset_state\<lparr>DFU_State := dfuERROR, in_ready := 3\<rparr>)) = Some dfuERROR"
proof -
  have a: "UpdateState (reset_state\<lparr>DFU_State := dfuDNBUSY\<rparr>) = reset_state\<lparr>DFU_State := dfuDNBUSY\<rparr>"
    using C6_poll_transition [of "reset_state\<lparr>DFU_State := dfuDNBUSY\<rparr>"] by simp
  have b: "map_option DFU_State
        (EVENT_USB_Device_UnhandledControlRequest sample_board
           \<lparr>bRequest = DFU_GETSTATUS, wLength = 6\<rparr>
           (reset_state\<lparr>DFU_State := dfuDNLOAD_SYNC, in_ready := 3\<rparr>)) = Some dfuDNLOAD_IDLE"
    using C6_poll_transition [where s = "reset_state\<lparr>DFU_State := dfuDNLOAD_SYNC, in_ready := 3\<rparr>"
        and r = "\<lparr>bRequest = DFU_GETSTATUS, wLength = 6\<rparr>" and b = sample_board]
    by (auto simp: UpdateState_def)
  have c: "map_option DFU_State
        (serve sample_board (replicate 3 \<lparr>bRequest = DFU_GETSTATUS, wLength = 6\<rparr>)
           (reset_state\<lparr>DFU_State := dfuERROR, in_ready := 3\<rparr>)) = Some dfuERROR"
    using C6_poll_transition [where s = "reset_state\<lparr>DFU_State := dfuERROR, in_ready := 3\<rparr>"
        and r = "\<lparr>bRequest = DFU_GETSTATUS, wLength = 6\<rparr>" and n = 3 and b = sample_board]
    by auto
  from a b c show ?thesis by simp
qed

text \<open>
  C7. \<^verbatim>\<open>DFU_CLRSTATUS\<close> and \<^verbatim>\<open>DFU_ABORT\<close> do the same from every state and status:
  the state becomes \<open>dfuIDLE\<close>, the status \<open>OK\<close>, and beyond the two acknowledgements
  every request makes (setup and status stage) nothing else happens.
\<close>

theorem C7_clrstatus_abort_equivalent:
  "EVENT_USB_Device_UnhandledControlRequest b \<lparr>bRequest = DFU_CLRSTATUS, wLength = w\<rparr> s
     = Some (s\<lparr>DFU_State := dfuIDLE, DFU_Status := OK,
               trace := trace s @ [EP_CLEAR_SETUP, EP_CLEAR_STATUS_STAGE]\<rparr>)
   \<and> EVENT_USB_Device_UnhandledControlRequest b \<lparr>bRequest = DFU_ABORT, wLength = w\<rparr> s
     = EVENT_USB_Device_UnhandledControlRequest b \<lparr>bRequest = DFU_CLRSTATUS, wLength = w\<rparr> s"
  by (simp add: EVENT_USB_Device_UnhandledControlRequest_def request_defs emit_def)

section \<open>Streaming commands outside dfuIDLE\<close>

text \<open>
  C1. A streaming command (Download to flash, EEPROM or dataflash; Upload display of
  flash, EEPROM or dataflash) met in a state other than \<open>dfuIDLE\<close> returns at once with
  the state \<open>dfuERROR\<close> and everything else as it was: the status, the log of hardware
  calls (no write, erase or read), the endpoints.
\<close>

theorem C1_streaming_outside_idle:
  assumes "DFU_State s \<noteq> dfuIDLE"
  shows "(data (flipCommand s) 0 \<in> {0x00, 0x01, 0x10} \<longrightarrow>
            ProcessDownload b s = Some (s\<lparr>DFU_State := dfuERROR\<rparr>))
       \<and> (data (flipCommand s) 0 \<in> {0x00, 0x02, 0x10} \<longrightarrow>
            ProcessUpload b s = Some (s\<lparr>DFU_State := dfuERROR\<rparr>))
       \<and> ((group (flipCommand s) = CMD_GROUP_DOWNLOAD \<and> data (flipCommand s) 0 \<in> {0x00, 0x01, 0x10})
            \<or> (group (flipCommand s) = CMD_GROUP_UPLOAD \<and> data (flipCommand s) 0 \<in> {0x00, 0x02, 0x10}) \<longrightarrow>
            ProcessFlipCommand b s = Some (s\<lparr>DFU_State := dfuERROR\<rparr>))"
  using assms
  by (auto simp: ProcessDownload_def ProcessUpload_def ProcessFlipCommand_def group_defs)

theorem C1_streaming_outside_idle_witness:
  "DFU_State (reset_state\<lparr>DFU_State := dfuDNLOAD_IDLE, DFU_Status := errCHECK_ERASED,
       flipCommand := command CMD_GROUP_DOWNLOAD [0x01, 0x00, 0x00, 0x00, 0x04],
       out_queue := [[1, 2, 3, 4, 5]]\<rparr>) \<noteq> dfuIDLE
   \<and> ProcessFlipCommand sample_board
        (reset_state\<lparr>DFU_State := dfuDNLOAD_IDLE, DFU_Status := errCHECK_ERASED,
           flipCommand := command CMD_GROUP_DOWNLOAD [0x01, 0x00, 0x00, 0x00, 0x04],
           out_queue := [[1, 2, 3, 4, 5]]\<rparr>)
     = Some (reset_state\<lparr>DFU_State := dfuERROR, DFU_Status := errCHECK_ERASED,
           flipCommand := command CMD_GROUP_DOWNLOAD [0x01, 0x00, 0x00, 0x00, 0x04],
           out_queue := [[1, 2, 3, 4, 5]]\<rparr>)
   \<and> ProcessUpload sample_board
        (reset_state\<lparr>DFU_State := dfuUPLOAD_IDLE,
           flipCommand := command CMD_GROUP_UPLOAD [0x02, 0x00, 0x00, 0x00, 0x04], in_ready := 1\<rparr>)
     = Some (reset_state\<lparr>DFU_State := dfuERROR,
           flipCommand := command CMD_GROUP_UPLOAD [0x02, 0x00, 0x00, 0x00, 0x04], in_ready := 1\<rparr>)"
  using C1_streaming_outside_idle [where b = sample_board and
      s = "reset_state\<lparr>DFU_State := dfuDNLOAD_IDLE, DFU_Status := errCHECK_ERASED,
       flipCommand := command CMD_GROUP_DOWNLOAD [0x01, 0x00, 0x00, 0x00, 0x04],
       out_queue := [[1, 2, 3, 4, 5]]\<rparr>"]
    C1_streaming_outside_idle [where b = sample_board and
      s = "reset_state\<lparr>DFU_State := dfuUPLOAD_IDLE,
           flipCommand := command CMD_GROUP_UPLOAD [0x02, 0x00, 0x00, 0x00, 0x04], in_ready := 1\<rparr>"]
  by (simp add: command_def)

section \<open>An Upload request falls into the Getstatus case\<close>

lemma case_GETSTATUS_Some:
  assumes "0 < in_ready s"
  shows "case_GETSTATUS s = Some (s\<lparr>DFU_State := DFU_State (UpdateState s),
           in_ready := in_ready s - 1,
           trace := trace s @
             [EP_WRITE_BYTE (status_byte (DFU_Status s)), EP_WRITE_BYTE 0, EP_WRITE_BYTE 0,
              EP_WRITE_BYTE 0, EP_WRITE_BYTE (state_byte (DFU_State (UpdateState s))),
              EP_WRITE_BYTE 0, EP_CLEAR_IN]\<rparr>)"
  using assms
  by (simp add: case_GETSTATUS_def wait_IN_def UpdateState_def emit_def split: DFU_State_t.splits)

text \<open>
  C10. A \<^verbatim>\<open>DFU_UPLOAD\<close> whose remembered command is no blank check dispatches the
  command and, when that returns and the host collects the answer, goes on with all of
  \<^verbatim>\<open>case DFU_GETSTATUS\<close>: \<^verbatim>\<open>UpdateState\<close>, then the six bytes status, 0, 0, 0, state, 0.
\<close>

theorem C10_upload_runs_getstatus:
  assumes "bRequest r = DFU_UPLOAD"
    and "\<not> is_blank_check (flipCommand s)"
    and "ProcessFlipCommand b (emit EP_CLEAR_SETUP s) = Some s1"
    and "0 < in_ready s1"
  shows "EVENT_USB_Device_UnhandledControlRequest b r s =
           Some (s1\<lparr>DFU_State := DFU_State (UpdateState s1),
             in_ready := in_ready s1 - 1,
             trace := trace s1 @
               [EP_WRITE_BYTE (status_byte (DFU_Status s1)), EP_WRITE_BYTE 0, EP_WRITE_BYTE 0,
                EP_WRITE_BYTE 0, EP_WRITE_BYTE (state_byte (DFU_State (UpdateState s1))),
                EP_WRITE_BYTE 0, EP_CLEAR_IN, EP_CLEAR_STATUS_STAGE]\<rparr>)"
  using assms
  by (simp add: EVENT_USB_Device_UnhandledControlRequest_def request_defs case_UPLOAD_def
      case_GETSTATUS_Some emit_def)

text \<open>A remembered Read command (bootloader version) and a host that collects twice.\<close>

definition c10_state :: dfu where
  "c10_state = reset_state\<lparr>flipCommand := command CMD_GROUP_READ [0x00, 0x00], in_ready := 2,
     waitForSecondRequest := True\<rparr>"

theorem C10_upload_runs_getstatus_witness:
  "\<not> is_blank_check (flipCommand c10_state)
   \<and> EVENT_USB_Device_UnhandledControlRequest sample_board \<lparr>bRequest = DFU_UPLOAD, wLength = 1\<rparr> c10_state
     = Some (c10_state\<lparr>in_ready := 0,
          trace := [EP_CLEAR_SETUP, EP_WRITE_BYTE 0x20, EP_CLEAR_IN,
                    EP_WRITE_BYTE 0, EP_WRITE_BYTE 0, EP_WRITE_BYTE 0, EP_WRITE_BYTE 0,
                    EP_WRITE_BYTE 2, EP_WRITE_BYTE 0, EP_CLEAR_IN, EP_CLEAR_STATUS_STAGE]\<rparr>)"
proof -
  have nb: "\<not> is_blank_check (flipCommand c10_state)"
    by (simp add: is_blank_check_def c10_state_def command_def group_defs)
  have p: "ProcessFlipCommand sample_board (emit EP_CLEAR_SETUP c10_state)
     = Some (c10_state\<lparr>in_ready := 1, trace := [EP_CLEAR_SETUP, EP_WRITE_BYTE 0x20, EP_CLEAR_IN]\<rparr>)"
    by (simp add: ProcessFlipCommand_def ProcessRead_def read_info_def wait_IN_def emit_def
        c10_state_def command_def group_defs reset_state_def BOOTLOADER_VERSION_def)
  show ?thesis
    using nb C10_upload_runs_getstatus [OF _ nb p, of "\<lparr>bRequest = DFU_UPLOAD, wLength = 1\<rparr>"]
    by (simp add: UpdateState_def c10_state_def reset_state_def)
qed

section \<open>Which commands a Dnload request runs itself\<close>

text \<open>One round of the erase loop, and its exit.\<close>

lemma erase_flash_pages_step:
  "unat cur < BOOT_START_ADDR b \<Longrightarrow>
   erase_flash_pages b cur s
     = erase_flash_pages b (cur + of_nat (SPM_PAGESIZE b)) (emit (PAGE_ERASE cur) s)"
  by (subst erase_flash_pages.simps) simp

lemma erase_flash_pages_stop:
  "\<not> unat cur < BOOT_START_ADDR b \<Longrightarrow> erase_flash_pages b cur s = Some s"
  by (subst erase_flash_pages.simps) simp

text \<open>The loop ends when the pages have a size and the first page boundary at or beyond
  \<open>BOOT_START_ADDR\<close> is one a 16-bit cursor can hold.\<close>

lemma erase_flash_pages_returns:
  assumes "0 < SPM_PAGESIZE b" and "BOOT_START_ADDR b + SPM_PAGESIZE b \<le> 65536"
  shows "\<exists>s'. erase_flash_pages b cur s = Some s'"
proof (induction "BOOT_START_ADDR b - unat cur" arbitrary: cur s rule: less_induct)
  case less
  show ?case
  proof (cases "unat cur < BOOT_START_ADDR b")
    case False
    then show ?thesis by (simp add: erase_flash_pages_stop)
  next
    case True
    with assms(2) have "unat cur + SPM_PAGESIZE b < 65536" by simp
    then have "unat (cur + of_nat (SPM_PAGESIZE b)) = unat cur + SPM_PAGESIZE b"
      by (simp add: unat_word_ariths unat_of_nat)
    with True assms(1) have
      "BOOT_START_ADDR b - unat (cur + of_nat (SPM_PAGESIZE b)) < BOOT_START_ADDR b - unat cur"
      by simp
    from less [OF this] True show ?thesis
      by (simp add: erase_flash_pages_step)
  qed
qed

text \<open>It ends only if the 16-bit cursor can reach \<open>BOOT_START_ADDR\<close>.\<close>

lemma erase_flash_pages_Some:
  assumes "erase_flash_pages b cur s = Some y"
  shows "BOOT_START_ADDR b \<le> 65535"
proof (rule erase_flash_pages.raw_induct
    [where P = "\<lambda>b cur s y. BOOT_START_ADDR b \<le> 65535", OF _ assms])
  fix f :: "board \<Rightarrow> u16 \<Rightarrow> dfu \<Rightarrow> dfu option" and b cur s y
  assume IH: "\<And>b cur s y. f b cur s = Some y \<Longrightarrow> BOOT_START_ADDR b \<le> 65535"
    and eq: "(if unat cur < BOOT_START_ADDR b
              then f b (cur + of_nat (SPM_PAGESIZE b)) (emit (PAGE_ERASE cur) s)
              else Some s) = Some y"
  have lt: "unat cur < 65536"
    using unsigned_less [of cur, where 'a = nat] by simp
  show "BOOT_START_ADDR b \<le> 65535"
  proof (cases "unat cur < BOOT_START_ADDR b")
    case True
    with eq have "f b (cur + of_nat (SPM_PAGESIZE b)) (emit (PAGE_ERASE cur) s) = Some y"
      by simp
    then show ?thesis by (rule IH)
  next
    case False
    with lt show ?thesis by simp
  qed
qed

lemma erase_flash_pages_never:
  "65535 < BOOT_START_ADDR b \<Longrightarrow> erase_flash_pages b cur s = None"
  using erase_flash_pages_Some [of b cur s] by (cases "erase_flash_pages b cur s") auto

lemma ProcessExec_returns:
  assumes "\<not> (data (flipCommand s) 0 = 0x00 \<and> data (flipCommand s) 1 = 0xFF)
           \<or> (0 < SPM_PAGESIZE b \<and> BOOT_START_ADDR b + SPM_PAGESIZE b \<le> 65536)"
  shows "ProcessExec b s \<noteq> None"
  using assms erase_flash_pages_returns [of b 0 s]
  by (auto simp: ProcessExec_def Let_def)

lemma ProcessExec_never:
  assumes "data (flipCommand s) 0 = 0x00" and "data (flipCommand s) 1 = 0xFF"
    and "65535 < BOOT_START_ADDR b"
  shows "ProcessExec b s = None"
  using assms by (simp add: ProcessExec_def erase_flash_pages_never)

lemma ProcessSelect_returns: "ProcessSelect s \<noteq> None"
  by (simp add: ProcessSelect_def)

text \<open>
  C8, as the code has it. Let \<open>s1\<close> be the state once the command of a non-empty
  \<^verbatim>\<open>DFU_DNLOAD\<close> is retrieved. A command of group Exec or Select is run by that very
  request (\<^verbatim>\<open>ProcessExec\<close>, \<^verbatim>\<open>ProcessSelect\<close>). The request then returns, for Select
  always, and for Exec whenever the command is not the flash erase or the erase loop can
  end (\<open>0 < SPM_PAGESIZE\<close> and \<open>BOOT_START_ADDR + SPM_PAGESIZE \<le> 65536\<close>); with
  \<open>BOOT_START_ADDR\<close> above 0xFFFF the 16-bit cursor of the flash erase never reaches it
  and the request does not return. A command of group Read is not run by the request:
  the request stores it, sets \<^verbatim>\<open>waitForSecondRequest\<close> and returns; \<^verbatim>\<open>ProcessRead\<close>
  runs in the \<^verbatim>\<open>DFU_UPLOAD\<close> request that follows.
\<close>

theorem C8_exec_select_in_dnload_read_deferred:
  fixes b r s r'
  defines "s1 \<equiv> receive_command r (emit EP_CLEAR_SETUP s)"
  assumes "bRequest r = DFU_DNLOAD" and "wLength r \<noteq> 0" and "out_queue s \<noteq> []"
  shows "(group (flipCommand s1) = CMD_GROUP_EXEC \<longrightarrow>
            EVENT_USB_Device_UnhandledControlRequest b r s
              = map_option (emit EP_CLEAR_STATUS_STAGE)
                  (ProcessExec b (s1\<lparr>waitForSecondRequest := False\<rparr>))
            \<and> (\<not> (data (flipCommand s1) 0 = 0x00 \<and> data (flipCommand s1) 1 = 0xFF)
                 \<or> (0 < SPM_PAGESIZE b \<and> BOOT_START_ADDR b + SPM_PAGESIZE b \<le> 65536)
               \<longrightarrow> EVENT_USB_Device_UnhandledControlRequest b r s \<noteq> None)
            \<and> (data (flipCommand s1) 0 = 0x00 \<and> data (flipCommand s1) 1 = 0xFF
                 \<and> 65535 < BOOT_START_ADDR b
               \<longrightarrow> EVENT_USB_Device_UnhandledControlRequest b r s = None))
       \<and> (group (flipCommand s1) = CMD_GROUP_SELECT \<longrightarrow>
            EVENT_USB_Device_UnhandledControlRequest b r s
              = map_option (emit EP_CLEAR_STATUS_STAGE)
                  (ProcessSelect (s1\<lparr>waitForSecondRequest := False\<rparr>))
            \<and> EVENT_USB_Device_UnhandledControlRequest b r s \<noteq> None)
       \<and> (group (flipCommand s1) = CMD_GROUP_READ \<longrightarrow>
            EVENT_USB_Device_UnhandledControlRequest b r s
              = Some (emit EP_CLEAR_STATUS_STAGE (s1\<lparr>waitForSecondRequest := True\<rparr>))
            \<and> (bRequest r' = DFU_UPLOAD \<longrightarrow>
                 EVENT_USB_Device_UnhandledControlRequest b r'
                     (emit EP_CLEAR_STATUS_STAGE (s1\<lparr>waitForSecondRequest := True\<rparr>))
                   = map_option (emit EP_CLEAR_STATUS_STAGE)
                       (Option.bind
                          (ProcessRead (emit EP_CLEAR_SETUP
                             (emit EP_CLEAR_STATUS_STAGE (s1\<lparr>waitForSecondRequest := True\<rparr>))))
                          case_GETSTATUS)))"
proof -
  have dn: "EVENT_USB_Device_UnhandledControlRequest b r s =
      map_option (emit EP_CLEAR_STATUS_STAGE)
        (if processed_in_dnload (flipCommand s1)
         then ProcessFlipCommand b (s1\<lparr>waitForSecondRequest := False\<rparr>)
         else Some (s1\<lparr>waitForSecondRequest := True\<rparr>))"
    unfolding s1_def using assms(2-4)
    by (simp add: EVENT_USB_Device_UnhandledControlRequest_def request_defs case_DNLOAD_def
        wait_OUT_def Let_def)
  have exec: "group (flipCommand s1) = CMD_GROUP_EXEC \<Longrightarrow>
      EVENT_USB_Device_UnhandledControlRequest b r s
        = map_option (emit EP_CLEAR_STATUS_STAGE) (ProcessExec b (s1\<lparr>waitForSecondRequest := False\<rparr>))"
    by (simp add: dn processed_in_dnload_def ProcessFlipCommand_def group_defs)
  have sel: "group (flipCommand s1) = CMD_GROUP_SELECT \<Longrightarrow>
      EVENT_USB_Device_UnhandledControlRequest b r s
        = map_option (emit EP_CLEAR_STATUS_STAGE) (ProcessSelect (s1\<lparr>waitForSecondRequest := False\<rparr>))"
    by (simp add: dn processed_in_dnload_def ProcessFlipCommand_def group_defs)
  have rd: "group (flipCommand s1) = CMD_GROUP_READ \<Longrightarrow>
      EVENT_USB_Device_UnhandledControlRequest b r s
        = Some (emit EP_CLEAR_STATUS_STAGE (s1\<lparr>waitForSecondRequest := True\<rparr>))"
    by (simp add: dn processed_in_dnload_def is_blank_check_def group_defs)
  have up: "group (flipCommand s1) = CMD_GROUP_READ \<Longrightarrow> bRequest r' = DFU_UPLOAD \<Longrightarrow>
      EVENT_USB_Device_UnhandledControlRequest b r'
          (emit EP_CLEAR_STATUS_STAGE (s1\<lparr>waitForSecondRequest := True\<rparr>))
        = map_option (emit EP_CLEAR_STATUS_STAGE)
            (Option.bind
               (ProcessRead (emit EP_CLEAR_SETUP
                  (emit EP_CLEAR_STATUS_STAGE (s1\<lparr>waitForSecondRequest := True\<rparr>))))
               case_GETSTATUS)"
    by (simp add: EVENT_USB_Device_UnhandledControlRequest_def request_defs case_UPLOAD_def
        is_blank_check_def ProcessFlipCommand_def group_defs emit_def split: option.splits)
  have ret: "\<not> (data (flipCommand s1) 0 = 0x00 \<and> data (flipCommand s1) 1 = 0xFF)
        \<or> (0 < SPM_PAGESIZE b \<and> BOOT_START_ADDR b + SPM_PAGESIZE b \<le> 65536) \<Longrightarrow>
      ProcessExec b (s1\<lparr>waitForSecondRequest := False\<rparr>) \<noteq> None"
    by (rule ProcessExec_returns) simp
  have nev: "data (flipCommand s1) 0 = 0x00 \<and> data (flipCommand s1) 1 = 0xFF
        \<and> 65535 < BOOT_START_ADDR b \<Longrightarrow>
      ProcessExec b (s1\<lparr>waitForSecondRequest := False\<rparr>) = None"
    by (rule ProcessExec_never) simp_all
  have e: "group (flipCommand s1) = CMD_GROUP_EXEC \<longrightarrow>
            EVENT_USB_Device_UnhandledControlRequest b r s
              = map_option (emit EP_CLEAR_STATUS_STAGE)
                  (ProcessExec b (s1\<lparr>waitForSecondRequest := False\<rparr>))
            \<and> (\<not> (data (flipCommand s1) 0 = 0x00 \<and> data (flipCommand s1) 1 = 0xFF)
                 \<or> (0 < SPM_PAGESIZE b \<and> BOOT_START_ADDR b + SPM_PAGESIZE b \<le> 65536)
               \<longrightarrow> EVENT_USB_Device_UnhandledControlRequest b r s \<noteq> None)
            \<and> (data (flipCommand s1) 0 = 0x00 \<and> data (flipCommand s1) 1 = 0xFF
                 \<and> 65535 < BOOT_START_ADDR b
               \<longrightarrow> EVENT_USB_Device_UnhandledControlRequest b r s = None)"
    using exec ret nev by auto
  have sl: "group (flipCommand s1) = CMD_GROUP_SELECT \<longrightarrow>
            EVENT_USB_Device_UnhandledControlRequest b r s
              = map_option (emit EP_CLEAR_STATUS_STAGE)
                  (ProcessSelect (s1\<lparr>waitForSecondRequest := False\<rparr>))
            \<and> EVENT_USB_Device_UnhandledControlRequest b r s \<noteq> None"
    using sel ProcessSelect_returns by simp
  have rdu: "group (flipCommand s1) = CMD_GROUP_READ \<longrightarrow>
            EVENT_USB_Device_UnhandledControlRequest b r s
              = Some (emit EP_CLEAR_STATUS_STAGE (s1\<lparr>waitForSecondRequest := True\<rparr>))
            \<and> (bRequest r' = DFU_UPLOAD \<longrightarrow>
                 EVENT_USB_Device_UnhandledControlRequest b r'
                     (emit EP_CLEAR_STATUS_STAGE (s1\<lparr>waitForSecondRequest := True\<rparr>))
                   = map_option (emit EP_CLEAR_STATUS_STAGE)
                       (Option.bind
                          (ProcessRead (emit EP_CLEAR_SETUP
                             (emit EP_CLEAR_STATUS_STAGE (s1\<lparr>waitForSecondRequest := True\<rparr>))))
                          case_GETSTATUS))"
    using rd up by simp
  from e sl rdu show ?thesis
    by blast
qed

text \<open>A host that sends the Read command "bootloader version" in a 6-byte Dnload.\<close>

definition c8_state :: dfu where
  "c8_state = reset_state\<lparr>out_queue := [[5, 0x00, 0x00, 0x00, 0x00, 0x00]], in_ready := 2\<rparr>"

text \<open>A Dnload request of six bytes, and what retrieving the command does when the
  packet holds all six.\<close>

definition dnload6 :: USB_Request where
  "dnload6 = \<lparr>bRequest = DFU_DNLOAD, wLength = 6\<rparr>"

lemma receive_command_whole:
  assumes "6 \<le> unat (wLength r)"
    and "out_queue s = (g # d0 # d1 # d2 # d3 # d4 # rest) # q"
  shows "receive_command r s =
           s\<lparr>flipCommand := (flipCommand s)\<lparr>group := g,
                  data := (data (flipCommand s))(0 := d0, 1 := d1, 2 := d2, 3 := d3, 4 := d4)\<rparr>,
               out_queue := q, trace := trace s @ [EP_CLEAR_OUT]\<rparr>"
proof -
  have m: "min 5 (unat (wLength r) - Suc 0) = 5"
    using assms(1) by simp
  have u: "[0..<5] = [0, 1, 2, 3, 4]"
    by (simp add: upt_rec)
  show ?thesis
    using assms(2)
    by (simp add: receive_command_def m u read_data_byte_def Endpoint_Read_Byte_def
        Endpoint_ClearOUT_def emit_def)
qed

text \<open>
  C8 as claimed fails for group Read: after the Dnload request the command is stored,
  the flag is set, and nothing was written to the IN endpoint.
\<close>

theorem C8_counterexample:
  "bRequest dnload6 = DFU_DNLOAD \<and> wLength dnload6 \<noteq> 0
   \<and> map_option (group \<circ> flipCommand)
        (EVENT_USB_Device_UnhandledControlRequest sample_board dnload6 c8_state)
       = Some CMD_GROUP_READ
   \<and> map_option waitForSecondRequest
        (EVENT_USB_Device_UnhandledControlRequest sample_board dnload6 c8_state) = Some True
   \<and> map_option in_ready
        (EVENT_USB_Device_UnhandledControlRequest sample_board dnload6 c8_state) = Some 2
   \<and> map_option trace
        (EVENT_USB_Device_UnhandledControlRequest sample_board dnload6 c8_state)
       = Some [EP_CLEAR_SETUP, EP_CLEAR_OUT, EP_CLEAR_STATUS_STAGE]"
proof -
  have "6 \<le> unat (wLength dnload6)"
    by (simp add: dnload6_def)
  from receive_command_whole [OF this, of "emit EP_CLEAR_SETUP c8_state" 5 0 0 0 0 0 "[]" "[]"]
  show ?thesis
    by (simp add: EVENT_USB_Device_UnhandledControlRequest_def case_DNLOAD_def wait_OUT_def
        processed_in_dnload_def is_blank_check_def dnload6_def request_defs group_defs
        c8_state_def reset_state_def emit_def Let_def)
qed


text \<open>Exec "start application by watchdog" and Select "64KB page 1".\<close>

definition c8_exec_state :: dfu where
  "c8_exec_state = reset_state\<lparr>out_queue := [[4, 0x03, 0x00, 0x00, 0x00, 0x00]]\<rparr>"

definition c8_select_state :: dfu where
  "c8_select_state = reset_state\<lparr>out_queue := [[6, 0x03, 0x00, 0x01, 0x00, 0x00]]\<rparr>"

text \<open>Exec "erase flash", on a board whose application section is two pages of 128
  bytes, and on one whose bootloader starts at 0x1E000, beyond what the 16-bit cursor of
  the erase loop can hold.\<close>

definition c8_erase_state :: dfu where
  "c8_erase_state = reset_state\<lparr>out_queue := [[4, 0x00, 0xFF, 0x00, 0x00, 0x00]]\<rparr>"

definition two_page_board :: board where
  "two_page_board = \<lparr>FIXED_CONTROL_ENDPOINT_SIZE = 32, SPM_PAGESIZE = 128,
     DATAFLASH_PAGE_SIZE = 256, BOOT_START_ADDR = 0x100\<rparr>"

definition wide_board :: board where
  "wide_board = \<lparr>FIXED_CONTROL_ENDPOINT_SIZE = 32, SPM_PAGESIZE = 256,
     DATAFLASH_PAGE_SIZE = 256, BOOT_START_ADDR = 0x1E000\<rparr>"

theorem C8_exec_select_in_dnload_read_deferred_witness:
  "bRequest dnload6 = DFU_DNLOAD \<and> wLength dnload6 \<noteq> 0
   \<and> out_queue c8_exec_state \<noteq> [] \<and> out_queue c8_select_state \<noteq> [] \<and> out_queue c8_state \<noteq> []
   \<and> out_queue c8_erase_state \<noteq> []
   \<and> map_option trace (EVENT_USB_Device_UnhandledControlRequest sample_board dnload6 c8_exec_state)
       = Some [EP_CLEAR_SETUP, EP_CLEAR_OUT, WDT_ENABLE, EP_CLEAR_STATUS_STAGE]
   \<and> map_option trace
         (EVENT_USB_Device_UnhandledControlRequest two_page_board dnload6 c8_erase_state)
       = Some [EP_CLEAR_SETUP, EP_CLEAR_OUT, PAGE_ERASE 0x0000, PAGE_ERASE 0x0080, RWW_ENABLE,
               EP_CLEAR_STATUS_STAGE]
   \<and> EVENT_USB_Device_UnhandledControlRequest wide_board dnload6 c8_erase_state = None
   \<and> map_option curFlash64KBPageNumber
         (EVENT_USB_Device_UnhandledControlRequest sample_board dnload6 c8_select_state) = Some 1
   \<and> map_option trace
         (serve sample_board [dnload6, \<lparr>bRequest = DFU_UPLOAD, wLength = 1\<rparr>] c8_state)
       = Some [EP_CLEAR_SETUP, EP_CLEAR_OUT, EP_CLEAR_STATUS_STAGE,
               EP_CLEAR_SETUP, EP_WRITE_BYTE 0x20, EP_CLEAR_IN,
               EP_WRITE_BYTE 0, EP_WRITE_BYTE 0, EP_WRITE_BYTE 0, EP_WRITE_BYTE 0,
               EP_WRITE_BYTE 2, EP_WRITE_BYTE 0, EP_CLEAR_IN, EP_CLEAR_STATUS_STAGE]"
proof -
  have h: "bRequest dnload6 = DFU_DNLOAD" "wLength dnload6 \<noteq> 0" "6 \<le> unat (wLength dnload6)"
    by (simp_all add: dnload6_def)
  have q: "out_queue c8_exec_state \<noteq> []" "out_queue c8_select_state \<noteq> []"
    "out_queue c8_state \<noteq> []" "out_queue c8_erase_state \<noteq> []"
    by (simp_all add: c8_exec_state_def c8_select_state_def c8_state_def c8_erase_state_def
        reset_state_def)
  have e: "map_option trace (EVENT_USB_Device_UnhandledControlRequest sample_board dnload6 c8_exec_state)
       = Some [EP_CLEAR_SETUP, EP_CLEAR_OUT, WDT_ENABLE, EP_CLEAR_STATUS_STAGE]"
    using C8_exec_select_in_dnload_read_deferred [OF h(1,2) q(1), of sample_board]
      receive_command_whole [OF h(3), of "emit EP_CLEAR_SETUP c8_exec_state" 4 3 0 0 0 0 "[]" "[]"]
    by (simp add: c8_exec_state_def reset_state_def emit_def group_defs ProcessExec_def
        start_application_def Let_def)
  have x: "map_option trace
         (EVENT_USB_Device_UnhandledControlRequest two_page_board dnload6 c8_erase_state)
       = Some [EP_CLEAR_SETUP, EP_CLEAR_OUT, PAGE_ERASE 0x0000, PAGE_ERASE 0x0080, RWW_ENABLE,
               EP_CLEAR_STATUS_STAGE]"
    using C8_exec_select_in_dnload_read_deferred [OF h(1,2) q(4), of two_page_board]
      receive_command_whole [OF h(3), of "emit EP_CLEAR_SETUP c8_erase_state" 4 0 "0xFF" 0 0 0 "[]" "[]"]
    by (simp add: c8_erase_state_def reset_state_def emit_def group_defs ProcessExec_def
        two_page_board_def erase_flash_pages_step erase_flash_pages_stop Let_def)
  have n: "EVENT_USB_Device_UnhandledControlRequest wide_board dnload6 c8_erase_state = None"
    using C8_exec_select_in_dnload_read_deferred [OF h(1,2) q(4), of wide_board]
      receive_command_whole [OF h(3), of "emit EP_CLEAR_SETUP c8_erase_state" 4 0 "0xFF" 0 0 0 "[]" "[]"]
    by (auto simp: c8_erase_state_def reset_state_def emit_def group_defs wide_board_def)
  have s: "map_option curFlash64KBPageNumber
         (EVENT_USB_Device_UnhandledControlRequest sample_board dnload6 c8_select_state) = Some 1"
    using C8_exec_select_in_dnload_read_deferred [OF h(1,2) q(2), of sample_board]
      receive_command_whole [OF h(3), of "emit EP_CLEAR_SETUP c8_select_state" 6 3 0 1 0 0 "[]" "[]"]
    by (simp add: c8_select_state_def reset_state_def emit_def group_defs ProcessSelect_def)
  have r: "map_option trace
         (serve sample_board [dnload6, \<lparr>bRequest = DFU_UPLOAD, wLength = 1\<rparr>] c8_state)
       = Some [EP_CLEAR_SETUP, EP_CLEAR_OUT, EP_CLEAR_STATUS_STAGE,
               EP_CLEAR_SETUP, EP_WRITE_BYTE 0x20, EP_CLEAR_IN,
               EP_WRITE_BYTE 0, EP_WRITE_BYTE 0, EP_WRITE_BYTE 0, EP_WRITE_BYTE 0,
               EP_WRITE_BYTE 2, EP_WRITE_BYTE 0, EP_CLEAR_IN, EP_CLEAR_STATUS_STAGE]"
    using C8_exec_select_in_dnload_read_deferred [OF h(1,2) q(3),
        where b = sample_board and r' = "\<lparr>bRequest = DFU_UPLOAD, wLength = 1\<rparr>"]
      receive_command_whole [OF h(3), of "emit EP_CLEAR_SETUP c8_state" 5 0 0 0 0 0 "[]" "[]"]
    by (simp add: c8_state_def reset_state_def emit_def group_defs ProcessRead_def read_info_def
        wait_IN_def case_GETSTATUS_def UpdateState_def BOOTLOADER_VERSION_def)
  from h(1,2) q e x n s r show ?thesis by simp
qed

section \<open>Blank check scans\<close>

text \<open>The cells of a window that excludes its end: \<open>a\<close>, \<open>a + 1\<close>, ..., \<open>b - 1\<close>.\<close>

definition window_cells :: "'a::len word \<Rightarrow> 'a word \<Rightarrow> 'a word list" where
  "window_cells a b = map of_nat [unat a..<unat b]"

text \<open>The cells a scan for a byte other than 0xFF reads: those before the first such
  byte, and that byte's own cell.\<close>

definition scanned_cells :: "('a::len word \<Rightarrow> u8) \<Rightarrow> 'a word \<Rightarrow> 'a word \<Rightarrow> 'a word list" where
  "scanned_cells mem a b =
     takeWhile (\<lambda>x. mem x = 0xFF) (window_cells a b)
       @ take 1 (dropWhile (\<lambda>x. mem x = 0xFF) (window_cells a b))"

lemma window_cells_Nil: "\<not> a < b \<Longrightarrow> window_cells a b = []"
  by (simp add: window_cells_def word_less_nat_alt)

lemma window_cells_Cons:
  assumes "a < b"
  shows "window_cells a b = a # window_cells (a + 1) b"
  using assms unat_succ_less [OF assms]
  by (simp add: window_cells_def word_less_nat_alt upt_conv_Cons)

lemma word_less_succ:
  fixes a :: "'a::len word"
  assumes "a < b"
  shows "a < a + 1" and "a + 1 \<le> b" and "\<And>x. a + 1 \<le> x \<longleftrightarrow> a < x"
  using assms unat_succ_less [OF assms]
  by (auto simp: word_less_nat_alt word_le_nat_alt)

lemma set_window_cells: "set (window_cells a b) = {x. a \<le> x \<and> x < b}"
proof (intro set_eqI iffI)
  fix x assume "x \<in> set (window_cells a b)"
  then obtain n where n: "x = of_nat n" "unat a \<le> n" "n < unat b"
    by (auto simp: window_cells_def)
  then have "unat x = n"
    by (metis le_unat_uoi less_imp_le_nat)
  with n show "x \<in> {x. a \<le> x \<and> x < b}"
    by (simp add: word_less_nat_alt word_le_nat_alt)
next
  fix x assume "x \<in> {x. a \<le> x \<and> x < b}"
  then have "unat a \<le> unat x" "unat x < unat b" "x = of_nat (unat x)"
    by (simp_all add: word_less_nat_alt word_le_nat_alt)
  then show "x \<in> set (window_cells a b)"
    unfolding window_cells_def by (metis atLeastLessThan_iff imageI set_map set_upt)
qed

lemma window_cells_single:
  fixes a :: "'a::len word"
  assumes "a < b"
  shows "window_cells a (a + 1) = [a]"
  using unat_succ_less [OF assms] by (simp add: window_cells_def)

lemma scanned_cells_blank:
  "(\<And>x. a \<le> x \<Longrightarrow> x < b \<Longrightarrow> mem x = 0xFF) \<Longrightarrow> scanned_cells mem a b = window_cells a b"
proof -
  assume "\<And>x. a \<le> x \<Longrightarrow> x < b \<Longrightarrow> mem x = 0xFF"
  then have "\<forall>x \<in> set (window_cells a b). mem x = 0xFF"
    by (simp add: set_window_cells)
  then have t: "takeWhile (\<lambda>x. mem x = 0xFF) (window_cells a b) = window_cells a b"
    and d: "dropWhile (\<lambda>x. mem x = 0xFF) (window_cells a b) = []"
    by (simp_all add: takeWhile_eq_all_conv dropWhile_eq_Nil_conv)
  show ?thesis
    unfolding scanned_cells_def t d by simp
qed

lemma scanned_cells_Nil: "\<not> a < b \<Longrightarrow> scanned_cells mem a b = []"
  by (simp add: scanned_cells_def window_cells_Nil)

lemma scanned_cells_Cons:
  "a < b \<Longrightarrow> scanned_cells mem a b =
     a # (if mem a = 0xFF then scanned_cells mem (a + 1) b else [])"
  by (simp add: scanned_cells_def window_cells_Cons)

lemma scanned_cells_hit:
  fixes a :: "'a::len word"
  assumes "a \<le> A" "A < b" "mem A \<noteq> 0xFF" "\<And>x. a \<le> x \<Longrightarrow> x < A \<Longrightarrow> mem x = 0xFF"
  shows "scanned_cells mem a b = window_cells a (A + 1)"
  using assms
proof (induction "unat A - unat a" arbitrary: a)
  case 0
  then have "a = A"
    by (simp add: word_le_nat_alt word_unat_eq_iff)
  with 0 show ?case
    by (simp add: scanned_cells_Cons window_cells_single)
next
  case (Suc n)
  then have lt: "a < A"
    by (simp add: word_less_nat_alt)
  with Suc.prems have ab: "a < b" by simp
  have s: "unat (a + 1) = Suc (unat a)"
    using unat_succ_less [OF lt] .
  have "scanned_cells mem (a + 1) b = window_cells (a + 1) (A + 1)"
  proof (rule Suc.hyps(1))
    show "n = unat A - unat (a + 1)" using Suc.hyps(2) s by simp
    show "a + 1 \<le> A" using word_less_succ(2) [OF lt] .
    show "A < b" by fact
    show "mem A \<noteq> 0xFF" by fact
    show "\<And>x. a + 1 \<le> x \<Longrightarrow> x < A \<Longrightarrow> mem x = 0xFF"
      using Suc.prems(4) word_less_succ(3) [OF lt] by simp
  qed
  moreover have "mem a = 0xFF" using Suc.prems(4) lt by simp
  moreover have "a < A + 1"
    using lt word_less_succ(1) [OF \<open>A < b\<close>] by simp
  ultimately show ?case
    by (simp add: scanned_cells_Cons [OF ab] window_cells_Cons [of a "A + 1"])
qed

lemma flash_emit [simp]: "flash (emit c s) = flash s"
  by (simp add: emit_def)

lemma flash_blank_check_scan:
  "flash_blank_check en cur s =
     (if \<forall>x. cur \<le> x \<and> x < en \<longrightarrow> flash s x = 0xFF
      then s\<lparr>trace := trace s @ map PGM_READ_BYTE (scanned_cells (flash s) cur en)\<rparr>
      else s\<lparr>DFU_State := dfuERROR, DFU_Status := errCHECK_ERASED,
             nonBlankAddr := last (scanned_cells (flash s) cur en),
             trace := trace s @ map PGM_READ_BYTE (scanned_cells (flash s) cur en)\<rparr>)"
proof (induction en cur s rule: flash_blank_check.induct)
  case (1 en cur s)
  show ?case
  proof (cases "cur < en")
    case False
    then have "\<forall>x. cur \<le> x \<and> x < en \<longrightarrow> flash s x = 0xFF"
      by auto
    with False show ?thesis
      by (simp add: flash_blank_check.simps [of en cur s] scanned_cells_Nil)
  next
    case True
    note lt = this
    show ?thesis
    proof (cases "flash s cur = 0xFF")
      case False
      with lt show ?thesis
        by (auto simp: flash_blank_check.simps [of en cur s] scanned_cells_Cons emit_def)
    next
      case True
      have eq: "(\<forall>x. cur \<le> x \<and> x < en \<longrightarrow> flash s x = 0xFF)
          \<longleftrightarrow> (\<forall>x. cur + 1 \<le> x \<and> x < en \<longrightarrow> flash s x = 0xFF)"
        using True word_less_succ(3) [OF lt] by (auto simp: order_le_less)
      have ne: "\<not> (\<forall>x. cur + 1 \<le> x \<and> x < en \<longrightarrow> flash s x = 0xFF)
          \<Longrightarrow> scanned_cells (flash s) (cur + 1) en \<noteq> []"
        by (metis scanned_cells_Cons scanned_cells_Nil list.distinct(1) order_le_less_trans)
      from "1.IH" [OF lt refl] True lt show ?thesis
        by (auto simp: flash_blank_check.simps [of en cur s] scanned_cells_Cons [OF lt] eq
            emit_def ne)
    qed
  qed
qed


lemma dataflash_emit [simp]: "dataflash (emit c s) = dataflash s"
  by (simp add: emit_def)

lemma df_blank_check_scan:
  "df_pos s = cur \<Longrightarrow>
   df_blank_check en cur s =
     (if \<forall>x. cur \<le> x \<and> x < en \<longrightarrow> dataflash s x = 0xFF
      then s\<lparr>df_pos := max cur en,
             trace := trace s @ map DF_RECEIVE (scanned_cells (dataflash s) cur en)\<rparr>
      else s\<lparr>DFU_State := dfuERROR, DFU_Status := errCHECK_ERASED,
             nonBlankAddr := ucast (last (scanned_cells (dataflash s) cur en)),
             df_pos := last (scanned_cells (dataflash s) cur en) + 1,
             trace := trace s @ map DF_RECEIVE (scanned_cells (dataflash s) cur en)\<rparr>)"
proof (induction en cur s rule: df_blank_check.induct)
  case (1 en cur s)
  show ?case
  proof (cases "cur < en")
    case False
    then have "\<forall>x. cur \<le> x \<and> x < en \<longrightarrow> dataflash s x = 0xFF"
      by auto
    with False "1.prems" show ?thesis
      by (simp add: df_blank_check.simps [of en cur s] scanned_cells_Nil max_def)
  next
    case True
    note lt = this
    show ?thesis
    proof (cases "dataflash s cur = 0xFF")
      case False
      with lt "1.prems" show ?thesis
        by (auto simp: df_blank_check.simps [of en cur s] scanned_cells_Cons emit_def
            Dataflash_ReceiveByte_def)
    next
      case True
      have eq: "(\<forall>x. cur \<le> x \<and> x < en \<longrightarrow> dataflash s x = 0xFF)
          \<longleftrightarrow> (\<forall>x. cur + 1 \<le> x \<and> x < en \<longrightarrow> dataflash s x = 0xFF)"
        using True word_less_succ(3) [OF lt] by (auto simp: order_le_less)
      have ne: "\<not> (\<forall>x. cur + 1 \<le> x \<and> x < en \<longrightarrow> dataflash s x = 0xFF)
          \<Longrightarrow> scanned_cells (dataflash s) (cur + 1) en \<noteq> []"
        by (metis scanned_cells_Cons scanned_cells_Nil list.distinct(1) order_le_less_trans)
      have mx: "max (cur + 1) en = max cur en"
        using word_less_succ(2) [OF lt] lt by (auto simp: max_def)
      have r: "Dataflash_ReceiveByte s = (0xFF, emit (DF_RECEIVE cur) (s\<lparr>df_pos := cur + 1\<rparr>))"
        using True "1.prems" by (simp add: Dataflash_ReceiveByte_def)
      have "df_pos (emit (DF_RECEIVE cur) (s\<lparr>df_pos := cur + 1\<rparr>)) = cur + 1"
        by (simp add: emit_def)
      from "1.IH" [OF lt r [symmetric] refl _ this] True lt show ?thesis
        by (auto simp: df_blank_check.simps [of en cur s] scanned_cells_Cons [OF lt] eq
            emit_def ne r mx)
    qed
  qed
qed

lemma last_window_cells:
  fixes a :: "'a::len word"
  assumes "a \<le> A" "A < b"
  shows "last (window_cells a (A + 1)) = A"
  using assms unat_succ_less [OF assms(2)]
  by (simp add: window_cells_def word_le_nat_alt)

lemma df_pos_configured:
  "df_pos (Dataflash_Configure_Read_Page_Offset b c (a div of_nat (DATAFLASH_PAGE_SIZE b))
             (a mod of_nat (DATAFLASH_PAGE_SIZE b)) s) = a"
  by (simp add: Dataflash_Configure_Read_Page_Offset_def emit_def word_mod_div_equality)


subsection \<open>The scans inside ProcessUpload\<close>

lemma ProcessUpload_flash_blank_check:
  assumes "data (flipCommand s) 0 = 0x01"
  shows "ProcessUpload b s = Some (flash_blank_check (endAddr16 s) (startAddr16 s) s)"
  using assms by (simp add: ProcessUpload_def)

lemma ProcessUpload_df_blank_check:
  assumes "data (flipCommand s) 0 = 0x11"
  shows "ProcessUpload b s =
           Some (emit DF_DESELECT (df_blank_check (endAddr32 s) (startAddr32 s)
             (Dataflash_Configure_Read_Page_Offset b DF_CMD_CONTARRAYREAD_LF
                (startAddr32 s div of_nat (DATAFLASH_PAGE_SIZE b))
                (startAddr32 s mod of_nat (DATAFLASH_PAGE_SIZE b)) (emit DF_SELECT s))))"
  using assms by (simp add: ProcessUpload_def Let_def)

lemma configured_fields [simp]:
  "dataflash (Dataflash_Configure_Read_Page_Offset b c p off s) = dataflash s"
  "trace (Dataflash_Configure_Read_Page_Offset b c p off s) = trace s @ [DF_CONFIG_READ c p off]"
  by (simp_all add: Dataflash_Configure_Read_Page_Offset_def emit_def)

lemma flash_blank_check_blank:
  assumes "\<forall>x. cur \<le> x \<and> x < en \<longrightarrow> flash s x = 0xFF"
  shows "flash_blank_check en cur s =
           s\<lparr>trace := trace s @ map PGM_READ_BYTE (window_cells cur en)\<rparr>"
proof -
  have "scanned_cells (flash s) cur en = window_cells cur en"
    using assms by (simp add: scanned_cells_blank)
  then show ?thesis
    unfolding flash_blank_check_scan if_P [OF assms] by simp
qed

lemma flash_blank_check_hit:
  assumes "cur \<le> A" "A < en" "flash s A \<noteq> 0xFF" "\<forall>x. cur \<le> x \<and> x < A \<longrightarrow> flash s x = 0xFF"
  shows "flash_blank_check en cur s =
           s\<lparr>DFU_State := dfuERROR, DFU_Status := errCHECK_ERASED, nonBlankAddr := A,
             trace := trace s @ map PGM_READ_BYTE (window_cells cur (A + 1))\<rparr>"
proof -
  have sc: "scanned_cells (flash s) cur en = window_cells cur (A + 1)"
    using assms by (simp add: scanned_cells_hit)
  have nb: "\<not> (\<forall>x. cur \<le> x \<and> x < en \<longrightarrow> flash s x = 0xFF)"
    using assms by blast
  have l: "last (window_cells cur (A + 1)) = A"
    using assms last_window_cells by blast
  show ?thesis
    unfolding flash_blank_check_scan if_not_P [OF nb] sc l by simp
qed

lemma df_blank_check_blank:
  assumes "df_pos s = cur" "\<forall>x. cur \<le> x \<and> x < en \<longrightarrow> dataflash s x = 0xFF"
  shows "df_blank_check en cur s =
           s\<lparr>df_pos := max cur en, trace := trace s @ map DF_RECEIVE (window_cells cur en)\<rparr>"
proof -
  have "scanned_cells (dataflash s) cur en = window_cells cur en"
    using assms by (simp add: scanned_cells_blank)
  then show ?thesis
    unfolding df_blank_check_scan [OF assms(1)] if_P [OF assms(2)] by simp
qed

lemma df_blank_check_hit:
  assumes "df_pos s = cur"
    and "cur \<le> A" "A < en" "dataflash s A \<noteq> 0xFF"
      "\<forall>x. cur \<le> x \<and> x < A \<longrightarrow> dataflash s x = 0xFF"
  shows "df_blank_check en cur s =
           s\<lparr>DFU_State := dfuERROR, DFU_Status := errCHECK_ERASED, nonBlankAddr := ucast A,
             df_pos := A + 1, trace := trace s @ map DF_RECEIVE (window_cells cur (A + 1))\<rparr>"
proof -
  have sc: "scanned_cells (dataflash s) cur en = window_cells cur (A + 1)"
    using assms by (simp add: scanned_cells_hit)
  have nb: "\<not> (\<forall>x. cur \<le> x \<and> x < en \<longrightarrow> dataflash s x = 0xFF)"
    using assms by blast
  have l: "last (window_cells cur (A + 1)) = A"
    using assms last_window_cells by blast
  show ?thesis
    unfolding df_blank_check_scan [OF assms(1)] if_not_P [OF nb] sc l by simp
qed

text \<open>
  C3, as the code has it. A blank check of the flash (\<^verbatim>\<open>data[0] == 0x01\<close>) or of the
  dataflash (\<^verbatim>\<open>data[0] == 0x11\<close>) over a window whose cells all read 0xFF leaves state
  and status as they were and reads every cell of the window once, in ascending order.
  If \<open>A\<close> is the lowest address of the window whose cell is not 0xFF, the scan ends
  with \<open>dfuERROR\<close> and \<open>errCHECK_ERASED\<close>, has read the cells from the start up to \<open>A\<close>
  and none after it, and stores \<open>A\<close> cut to 16 bits: for the flash that is \<open>A\<close>; for
  the dataflash, whose addresses carry the 64KB page number above bit 15, it is the
  low half of \<open>A\<close>.
\<close>

theorem C3_blank_check_scan:
  "(data (flipCommand s) 0 = 0x01
      \<and> (\<forall>x. startAddr16 s \<le> x \<and> x < endAddr16 s \<longrightarrow> flash s x = 0xFF) \<longrightarrow>
      ProcessUpload b s =
        Some (s\<lparr>trace := trace s
                @ map PGM_READ_BYTE (window_cells (startAddr16 s) (endAddr16 s))\<rparr>))
   \<and> (data (flipCommand s) 0 = 0x01
      \<and> startAddr16 s \<le> A \<and> A < endAddr16 s \<and> flash s A \<noteq> 0xFF
      \<and> (\<forall>x. startAddr16 s \<le> x \<and> x < A \<longrightarrow> flash s x = 0xFF) \<longrightarrow>
      ProcessUpload b s =
        Some (s\<lparr>DFU_State := dfuERROR, DFU_Status := errCHECK_ERASED, nonBlankAddr := A,
                trace := trace s @ map PGM_READ_BYTE (window_cells (startAddr16 s) (A + 1))\<rparr>))
   \<and> (data (flipCommand s) 0 = 0x11
      \<and> (\<forall>x. startAddr32 s \<le> x \<and> x < endAddr32 s \<longrightarrow> dataflash s x = 0xFF) \<longrightarrow>
      ProcessUpload b s =
        Some (s\<lparr>df_pos := max (startAddr32 s) (endAddr32 s),
                trace := trace s
                @ [DF_SELECT,
                   DF_CONFIG_READ DF_CMD_CONTARRAYREAD_LF
                     (startAddr32 s div of_nat (DATAFLASH_PAGE_SIZE b))
                     (startAddr32 s mod of_nat (DATAFLASH_PAGE_SIZE b))]
                @ map DF_RECEIVE (window_cells (startAddr32 s) (endAddr32 s))
                @ [DF_DESELECT]\<rparr>))
   \<and> (data (flipCommand s) 0 = 0x11
      \<and> startAddr32 s \<le> B \<and> B < endAddr32 s \<and> dataflash s B \<noteq> 0xFF
      \<and> (\<forall>x. startAddr32 s \<le> x \<and> x < B \<longrightarrow> dataflash s x = 0xFF) \<longrightarrow>
      ProcessUpload b s =
        Some (s\<lparr>DFU_State := dfuERROR, DFU_Status := errCHECK_ERASED,
                nonBlankAddr := ucast B, df_pos := B + 1,
                trace := trace s
                @ [DF_SELECT,
                   DF_CONFIG_READ DF_CMD_CONTARRAYREAD_LF
                     (startAddr32 s div of_nat (DATAFLASH_PAGE_SIZE b))
                     (startAddr32 s mod of_nat (DATAFLASH_PAGE_SIZE b))]
                @ map DF_RECEIVE (window_cells (startAddr32 s) (B + 1))
                @ [DF_DESELECT]\<rparr>))"
proof (intro conjI impI)
  assume h: "data (flipCommand s) 0 = 0x01
      \<and> (\<forall>x. startAddr16 s \<le> x \<and> x < endAddr16 s \<longrightarrow> flash s x = 0xFF)"
  then show "ProcessUpload b s =
        Some (s\<lparr>trace := trace s
                @ map PGM_READ_BYTE (window_cells (startAddr16 s) (endAddr16 s))\<rparr>)"
    by (simp add: ProcessUpload_flash_blank_check flash_blank_check_blank)
next
  assume h: "data (flipCommand s) 0 = 0x01
      \<and> startAddr16 s \<le> A \<and> A < endAddr16 s \<and> flash s A \<noteq> 0xFF
      \<and> (\<forall>x. startAddr16 s \<le> x \<and> x < A \<longrightarrow> flash s x = 0xFF)"
  then have "flash_blank_check (endAddr16 s) (startAddr16 s) s =
      s\<lparr>DFU_State := dfuERROR, DFU_Status := errCHECK_ERASED, nonBlankAddr := A,
        trace := trace s @ map PGM_READ_BYTE (window_cells (startAddr16 s) (A + 1))\<rparr>"
    by (intro flash_blank_check_hit) simp_all
  with h show "ProcessUpload b s =
        Some (s\<lparr>DFU_State := dfuERROR, DFU_Status := errCHECK_ERASED, nonBlankAddr := A,
                trace := trace s @ map PGM_READ_BYTE (window_cells (startAddr16 s) (A + 1))\<rparr>)"
    by (simp add: ProcessUpload_flash_blank_check)
next
  let ?s2 = "Dataflash_Configure_Read_Page_Offset b DF_CMD_CONTARRAYREAD_LF
                (startAddr32 s div of_nat (DATAFLASH_PAGE_SIZE b))
                (startAddr32 s mod of_nat (DATAFLASH_PAGE_SIZE b)) (emit DF_SELECT s)"
  assume h: "data (flipCommand s) 0 = 0x11
      \<and> (\<forall>x. startAddr32 s \<le> x \<and> x < endAddr32 s \<longrightarrow> dataflash s x = 0xFF)"
  then have "df_blank_check (endAddr32 s) (startAddr32 s) ?s2 =
      ?s2\<lparr>df_pos := max (startAddr32 s) (endAddr32 s),
        trace := trace ?s2 @ map DF_RECEIVE (window_cells (startAddr32 s) (endAddr32 s))\<rparr>"
    by (intro df_blank_check_blank df_pos_configured) simp
  with h show "ProcessUpload b s =
        Some (s\<lparr>df_pos := max (startAddr32 s) (endAddr32 s),
                trace := trace s
                @ [DF_SELECT,
                   DF_CONFIG_READ DF_CMD_CONTARRAYREAD_LF
                     (startAddr32 s div of_nat (DATAFLASH_PAGE_SIZE b))
                     (startAddr32 s mod of_nat (DATAFLASH_PAGE_SIZE b))]
                @ map DF_RECEIVE (window_cells (startAddr32 s) (endAddr32 s))
                @ [DF_DESELECT]\<rparr>)"
    by (simp add: ProcessUpload_df_blank_check)
      (simp add: Dataflash_Configure_Read_Page_Offset_def emit_def)
next
  let ?s2 = "Dataflash_Configure_Read_Page_Offset b DF_CMD_CONTARRAYREAD_LF
                (startAddr32 s div of_nat (DATAFLASH_PAGE_SIZE b))
                (startAddr32 s mod of_nat (DATAFLASH_PAGE_SIZE b)) (emit DF_SELECT s)"
  assume h: "data (flipCommand s) 0 = 0x11
      \<and> startAddr32 s \<le> B \<and> B < endAddr32 s \<and> dataflash s B \<noteq> 0xFF
      \<and> (\<forall>x. startAddr32 s \<le> x \<and> x < B \<longrightarrow> dataflash s x = 0xFF)"
  then have "df_blank_check (endAddr32 s) (startAddr32 s) ?s2 =
      ?s2\<lparr>DFU_State := dfuERROR, DFU_Status := errCHECK_ERASED, nonBlankAddr := ucast B,
        df_pos := B + 1,
        trace := trace ?s2 @ map DF_RECEIVE (window_cells (startAddr32 s) (B + 1))\<rparr>"
    by (intro df_blank_check_hit df_pos_configured) simp_all
  with h show "ProcessUpload b s =
        Some (s\<lparr>DFU_State := dfuERROR, DFU_Status := errCHECK_ERASED,
                nonBlankAddr := ucast B, df_pos := B + 1,
                trace := trace s
                @ [DF_SELECT,
                   DF_CONFIG_READ DF_CMD_CONTARRAYREAD_LF
                     (startAddr32 s div of_nat (DATAFLASH_PAGE_SIZE b))
                     (startAddr32 s mod of_nat (DATAFLASH_PAGE_SIZE b))]
                @ map DF_RECEIVE (window_cells (startAddr32 s) (B + 1))
                @ [DF_DESELECT]\<rparr>)"
    by (simp add: ProcessUpload_df_blank_check)
      (simp add: Dataflash_Configure_Read_Page_Offset_def emit_def)
qed


text \<open>Blank checks of the window from 0 up to 4, of the flash and of the dataflash in
  64KB page 1, over memories that are blank but for one cell.\<close>

definition c3_flash_state :: dfu where
  "c3_flash_state = reset_state\<lparr>DFU_State := dfuDNLOAD_IDLE,
     flipCommand := command CMD_GROUP_UPLOAD [0x01, 0x00, 0x00, 0x00, 0x04]\<rparr>"

definition c3_df_state :: dfu where
  "c3_df_state = reset_state\<lparr>curFlash64KBPageNumber := 1,
     flipCommand := command CMD_GROUP_UPLOAD [0x11, 0x00, 0x00, 0x00, 0x04]\<rparr>"

definition blank_but :: "'a::len word \<Rightarrow> 'a word \<Rightarrow> u8" where
  "blank_but A = (\<lambda>a. if a = A then 0x00 else 0xFF)"

lemma c3_windows:
  "startAddr16 c3_flash_state = 0" "endAddr16 c3_flash_state = 4"
  "startAddr32 c3_df_state = 0x10000" "endAddr32 c3_df_state = 0x10004"
  "data (flipCommand c3_flash_state) 0 = 0x01" "data (flipCommand c3_df_state) 0 = 0x11"
  by (simp_all add: c3_flash_state_def c3_df_state_def reset_state_def command_def
      startAddr16_def endAddr16_def startAddr32_def endAddr32_def addr16_def addr32_def)

lemma c3_cells:
  "window_cells (0 :: u16) 4 = [0, 1, 2, 3]"
  "window_cells (0 :: u16) 3 = [0, 1, 2]"
  "window_cells (0x10000 :: u32) 0x10004 = [0x10000, 0x10001, 0x10002, 0x10003]"
  "window_cells (0x10000 :: u32) 0x10003 = [0x10000, 0x10001, 0x10002]"
  by (simp_all add: window_cells_def upt_rec)

lemma window_memory_update [simp]:
  "startAddr32 (s\<lparr>dataflash := d\<rparr>) = startAddr32 s"
  "endAddr32 (s\<lparr>dataflash := d\<rparr>) = endAddr32 s"
  "startAddr16 (s\<lparr>flash := f\<rparr>) = startAddr16 s"
  "endAddr16 (s\<lparr>flash := f\<rparr>) = endAddr16 s"
  by (simp_all add: startAddr32_def endAddr32_def startAddr16_def endAddr16_def)

text \<open>
  C3 as claimed fails on the dataflash beyond the first 64KB: the lowest cell of the
  window that is not blank is 0x10002, and the result stored is 2.
\<close>

theorem C3_counterexample:
  "startAddr32 (c3_df_state\<lparr>dataflash := blank_but 0x10002\<rparr>) = 0x10000
   \<and> endAddr32 (c3_df_state\<lparr>dataflash := blank_but 0x10002\<rparr>) = 0x10004
   \<and> dataflash (c3_df_state\<lparr>dataflash := blank_but 0x10002\<rparr>) 0x10000 = 0xFF
   \<and> dataflash (c3_df_state\<lparr>dataflash := blank_but 0x10002\<rparr>) 0x10001 = 0xFF
   \<and> dataflash (c3_df_state\<lparr>dataflash := blank_but 0x10002\<rparr>) 0x10002 = 0x00
   \<and> map_option (unat \<circ> nonBlankAddr)
        (ProcessUpload sample_board (c3_df_state\<lparr>dataflash := blank_but 0x10002\<rparr>)) = Some 2
   \<and> unat (0x10002 :: u32) = 65538"
proof -
  let ?s = "c3_df_state\<lparr>dataflash := blank_but 0x10002\<rparr>"
  let ?s2 = "Dataflash_Configure_Read_Page_Offset sample_board DF_CMD_CONTARRAYREAD_LF
                (startAddr32 ?s div of_nat (DATAFLASH_PAGE_SIZE sample_board))
                (startAddr32 ?s mod of_nat (DATAFLASH_PAGE_SIZE sample_board)) (emit DF_SELECT ?s)"
  have w: "startAddr32 ?s = 0x10000" "endAddr32 ?s = 0x10004" "data (flipCommand ?s) 0 = 0x11"
    using c3_windows by simp_all
  have "df_blank_check (endAddr32 ?s) (startAddr32 ?s) ?s2 =
      ?s2\<lparr>DFU_State := dfuERROR, DFU_Status := errCHECK_ERASED, nonBlankAddr := ucast (0x10002 :: u32),
        df_pos := 0x10002 + 1,
        trace := trace ?s2 @ map DF_RECEIVE (window_cells (startAddr32 ?s) (0x10002 + 1))\<rparr>"
  proof (rule df_blank_check_hit)
    show "df_pos ?s2 = startAddr32 ?s" by (rule df_pos_configured)
  qed (simp_all add: c3_windows blank_but_def)
  then show ?thesis
    using w by (simp add: ProcessUpload_df_blank_check blank_but_def emit_def)
qed


theorem C3_blank_check_scan_witness:
  "ProcessUpload sample_board c3_flash_state
     = Some (c3_flash_state\<lparr>trace := map PGM_READ_BYTE [0, 1, 2, 3]\<rparr>)
   \<and> ProcessUpload sample_board (c3_flash_state\<lparr>flash := blank_but 2\<rparr>)
     = Some (c3_flash_state\<lparr>flash := blank_but 2, DFU_State := dfuERROR,
          DFU_Status := errCHECK_ERASED, nonBlankAddr := 2,
          trace := map PGM_READ_BYTE [0, 1, 2]\<rparr>)
   \<and> ProcessUpload sample_board c3_df_state
     = Some (c3_df_state\<lparr>df_pos := 0x10004,
          trace := [DF_SELECT, DF_CONFIG_READ DF_CMD_CONTARRAYREAD_LF 256 0,
                    DF_RECEIVE 0x10000, DF_RECEIVE 0x10001, DF_RECEIVE 0x10002,
                    DF_RECEIVE 0x10003, DF_DESELECT]\<rparr>)
   \<and> ProcessUpload sample_board (c3_df_state\<lparr>dataflash := blank_but 0x10002\<rparr>)
     = Some (c3_df_state\<lparr>dataflash := blank_but 0x10002, DFU_State := dfuERROR,
          DFU_Status := errCHECK_ERASED, nonBlankAddr := 2, df_pos := 0x10003,
          trace := [DF_SELECT, DF_CONFIG_READ DF_CMD_CONTARRAYREAD_LF 256 0,
                    DF_RECEIVE 0x10000, DF_RECEIVE 0x10001, DF_RECEIVE 0x10002,
                    DF_DESELECT]\<rparr>)"
proof -
  have t: "trace c3_flash_state = []" "trace c3_df_state = []"
    "flash c3_flash_state = (\<lambda>a. 0xFF)" "dataflash c3_df_state = (\<lambda>a. 0xFF)"
    "DATAFLASH_PAGE_SIZE sample_board = 256"
    by (simp_all add: c3_flash_state_def c3_df_state_def reset_state_def sample_board_def)
  have a: "ProcessUpload sample_board c3_flash_state
     = Some (c3_flash_state\<lparr>trace := map PGM_READ_BYTE [0, 1, 2, 3]\<rparr>)"
    using C3_blank_check_scan [where s = c3_flash_state and b = sample_board]
    by (simp add: c3_windows c3_cells t)
  have b: "ProcessUpload sample_board (c3_flash_state\<lparr>flash := blank_but 2\<rparr>)
     = Some (c3_flash_state\<lparr>flash := blank_but 2, DFU_State := dfuERROR,
          DFU_Status := errCHECK_ERASED, nonBlankAddr := 2,
          trace := map PGM_READ_BYTE [0, 1, 2]\<rparr>)"
    using C3_blank_check_scan [where s = "c3_flash_state\<lparr>flash := blank_but 2\<rparr>"
        and b = sample_board and A = 2]
    by (auto simp: c3_windows c3_cells t blank_but_def)
  have c: "ProcessUpload sample_board c3_df_state
     = Some (c3_df_state\<lparr>df_pos := 0x10004,
          trace := [DF_SELECT, DF_CONFIG_READ DF_CMD_CONTARRAYREAD_LF 256 0,
                    DF_RECEIVE 0x10000, DF_RECEIVE 0x10001, DF_RECEIVE 0x10002,
                    DF_RECEIVE 0x10003, DF_DESELECT]\<rparr>)"
    using C3_blank_check_scan [where s = c3_df_state and b = sample_board]
    by (simp add: c3_windows c3_cells t)
  have d: "ProcessUpload sample_board (c3_df_state\<lparr>dataflash := blank_but 0x10002\<rparr>)
     = Some (c3_df_state\<lparr>dataflash := blank_but 0x10002, DFU_State := dfuERROR,
          DFU_Status := errCHECK_ERASED, nonBlankAddr := 2, df_pos := 0x10003,
          trace := [DF_SELECT, DF_CONFIG_READ DF_CMD_CONTARRAYREAD_LF 256 0,
                    DF_RECEIVE 0x10000, DF_RECEIVE 0x10001, DF_RECEIVE 0x10002,
                    DF_DESELECT]\<rparr>)"
    using C3_blank_check_scan [where s = "c3_df_state\<lparr>dataflash := blank_but 0x10002\<rparr>"
        and b = sample_board and B = "0x10002"]
    by (auto simp: c3_windows c3_cells t blank_but_def)
  from a b c d show ?thesis by simp
qed


subsection \<open>Blank checks arriving in a Dnload request\<close>

lemma flash_blank_check_fields:
  "trace (flash_blank_check en cur s)
     = trace s @ map PGM_READ_BYTE (scanned_cells (flash s) cur en)"
  "out_queue (flash_blank_check en cur s) = out_queue s"
  "in_ready (flash_blank_check en cur s) = in_ready s"
  by (simp_all add: flash_blank_check_scan)

lemma df_blank_check_fields:
  assumes "df_pos s = cur"
  shows "trace (df_blank_check en cur s)
     = trace s @ map DF_RECEIVE (scanned_cells (dataflash s) cur en)"
  "out_queue (df_blank_check en cur s) = out_queue s"
  "in_ready (df_blank_check en cur s) = in_ready s"
  by (simp_all add: df_blank_check_scan [OF assms])

lemma dnload_blank_check:
  assumes "bRequest r = DFU_DNLOAD" and "6 \<le> unat (wLength r)"
    and "out_queue s = (CMD_GROUP_UPLOAD # opc # a1 # a2 # a3 # a4 # rest) # q"
    and "opc = 0x01 \<or> opc = 0x03 \<or> opc = 0x11"
  shows "EVENT_USB_Device_UnhandledControlRequest b r s =
           map_option (emit EP_CLEAR_STATUS_STAGE)
             (ProcessUpload b
                (s\<lparr>flipCommand := (flipCommand s)\<lparr>group := CMD_GROUP_UPLOAD,
                       data := (data (flipCommand s))(0 := opc, 1 := a1, 2 := a2, 3 := a3, 4 := a4)\<rparr>,
                    out_queue := q, trace := trace s @ [EP_CLEAR_SETUP, EP_CLEAR_OUT],
                    waitForSecondRequest := False\<rparr>))"
proof -
  have w: "wLength r \<noteq> 0"
    using assms(2) by auto
  have q: "out_queue (emit EP_CLEAR_SETUP s) = (CMD_GROUP_UPLOAD # opc # a1 # a2 # a3 # a4 # rest) # q"
    using assms(3) by simp
  have o: "out_queue (emit EP_CLEAR_SETUP s) \<noteq> []"
    using assms(3) by simp
  have "EVENT_USB_Device_UnhandledControlRequest b r s =
      map_option (emit EP_CLEAR_STATUS_STAGE)
        (ProcessUpload b ((receive_command r (emit EP_CLEAR_SETUP s))\<lparr>waitForSecondRequest := False\<rparr>))"
    using assms(1,4) w o
    by (auto simp: EVENT_USB_Device_UnhandledControlRequest_def request_defs case_DNLOAD_def
        wait_OUT_def receive_command_whole [OF assms(2) q] processed_in_dnload_def
        is_blank_check_def ProcessFlipCommand_def group_defs Let_def)
  then show ?thesis
    by (simp add: receive_command_whole [OF assms(2) q]) (simp add: emit_def)
qed

text \<open>
  C4, as the code has it. A six-byte \<^verbatim>\<open>DFU_DNLOAD\<close> carrying a command of group Upload
  with \<^verbatim>\<open>data[0]\<close> 0x01, 0x03 or 0x11 is run at once whatever the DFU state is, takes
  no further OUT packet and sends no IN packet. For 0x01 (flash) and 0x11 (dataflash)
  it reads the cells of the window in ascending order up to and including the first
  one that is not 0xFF, hence every cell when all are blank. For 0x03 (EEPROM) it is
  accepted in the same way, but no scan exists: nothing is read and nothing but the
  stored command changes.
\<close>

theorem C4_blank_check_in_dnload:
  assumes "bRequest r = DFU_DNLOAD" and "6 \<le> unat (wLength r)"
    and "out_queue s = (CMD_GROUP_UPLOAD # opc # a1 # a2 # a3 # a4 # rest) # q"
  shows "(opc = 0x01 \<longrightarrow>
            (\<exists>s'. EVENT_USB_Device_UnhandledControlRequest b r s = Some s'
               \<and> out_queue s' = q \<and> in_ready s' = in_ready s
               \<and> trace s' = trace s @ [EP_CLEAR_SETUP, EP_CLEAR_OUT]
                    @ map PGM_READ_BYTE (scanned_cells (flash s) (addr16 a1 a2) (addr16 a3 a4))
                    @ [EP_CLEAR_STATUS_STAGE]))
       \<and> (opc = 0x11 \<longrightarrow>
            (\<exists>s'. EVENT_USB_Device_UnhandledControlRequest b r s = Some s'
               \<and> out_queue s' = q \<and> in_ready s' = in_ready s
               \<and> trace s' = trace s @ [EP_CLEAR_SETUP, EP_CLEAR_OUT, DF_SELECT,
                      DF_CONFIG_READ DF_CMD_CONTARRAYREAD_LF
                        (addr32 (curFlash64KBPageNumber s) a1 a2 div of_nat (DATAFLASH_PAGE_SIZE b))
                        (addr32 (curFlash64KBPageNumber s) a1 a2 mod of_nat (DATAFLASH_PAGE_SIZE b))]
                    @ map DF_RECEIVE
                        (scanned_cells (dataflash s) (addr32 (curFlash64KBPageNumber s) a1 a2)
                           (addr32 (curFlash64KBPageNumber s) a3 a4))
                    @ [DF_DESELECT, EP_CLEAR_STATUS_STAGE]))
       \<and> (opc = 0x03 \<longrightarrow>
            EVENT_USB_Device_UnhandledControlRequest b r s =
              Some (s\<lparr>flipCommand := (flipCommand s)\<lparr>group := CMD_GROUP_UPLOAD,
                       data := (data (flipCommand s))(0 := 0x03, 1 := a1, 2 := a2, 3 := a3, 4 := a4)\<rparr>,
                     out_queue := q,
                     trace := trace s @ [EP_CLEAR_SETUP, EP_CLEAR_OUT, EP_CLEAR_STATUS_STAGE],
                     waitForSecondRequest := False\<rparr>))"
proof (intro conjI impI)
  assume o: "opc = 0x01"
  show "\<exists>s'. EVENT_USB_Device_UnhandledControlRequest b r s = Some s'
               \<and> out_queue s' = q \<and> in_ready s' = in_ready s
               \<and> trace s' = trace s @ [EP_CLEAR_SETUP, EP_CLEAR_OUT]
                    @ map PGM_READ_BYTE (scanned_cells (flash s) (addr16 a1 a2) (addr16 a3 a4))
                    @ [EP_CLEAR_STATUS_STAGE]"
    using o
    by (simp add: dnload_blank_check [OF assms] ProcessUpload_flash_blank_check
        flash_blank_check_fields startAddr16_def endAddr16_def emit_def)
next
  assume o: "opc = 0x11"
  let ?s2 = "s\<lparr>flipCommand := (flipCommand s)\<lparr>group := CMD_GROUP_UPLOAD,
                       data := (data (flipCommand s))(0 := opc, 1 := a1, 2 := a2, 3 := a3, 4 := a4)\<rparr>,
                    out_queue := q, trace := trace s @ [EP_CLEAR_SETUP, EP_CLEAR_OUT],
                    waitForSecondRequest := False\<rparr>"
  let ?s3 = "Dataflash_Configure_Read_Page_Offset b DF_CMD_CONTARRAYREAD_LF
                (startAddr32 ?s2 div of_nat (DATAFLASH_PAGE_SIZE b))
                (startAddr32 ?s2 mod of_nat (DATAFLASH_PAGE_SIZE b)) (emit DF_SELECT ?s2)"
  let ?s4 = "df_blank_check (endAddr32 ?s2) (startAddr32 ?s2) ?s3"
  have a: "startAddr32 ?s2 = addr32 (curFlash64KBPageNumber s) a1 a2"
    "endAddr32 ?s2 = addr32 (curFlash64KBPageNumber s) a3 a4"
    by (simp_all add: startAddr32_def endAddr32_def)
  have p: "df_pos ?s3 = startAddr32 ?s2"
    by (rule df_pos_configured)
  have f: "trace ?s4 = trace ?s3 @ map DF_RECEIVE
        (scanned_cells (dataflash ?s3) (startAddr32 ?s2) (endAddr32 ?s2))"
    "out_queue ?s4 = out_queue ?s3" "in_ready ?s4 = in_ready ?s3"
    by (rule df_blank_check_fields [OF p])+
  have e: "EVENT_USB_Device_UnhandledControlRequest b r s
      = Some (emit EP_CLEAR_STATUS_STAGE (emit DF_DESELECT ?s4))"
    using o by (simp add: dnload_blank_check [OF assms] ProcessUpload_df_blank_check)
  have g: "trace ?s3 = trace s @ [EP_CLEAR_SETUP, EP_CLEAR_OUT, DF_SELECT,
                      DF_CONFIG_READ DF_CMD_CONTARRAYREAD_LF
                        (addr32 (curFlash64KBPageNumber s) a1 a2 div of_nat (DATAFLASH_PAGE_SIZE b))
                        (addr32 (curFlash64KBPageNumber s) a1 a2 mod of_nat (DATAFLASH_PAGE_SIZE b))]"
    "out_queue ?s3 = q" "in_ready ?s3 = in_ready s" "dataflash ?s3 = dataflash s"
    unfolding a by (simp_all add: emit_def Dataflash_Configure_Read_Page_Offset_def)
  show "\<exists>s'. EVENT_USB_Device_UnhandledControlRequest b r s = Some s'
               \<and> out_queue s' = q \<and> in_ready s' = in_ready s
               \<and> trace s' = trace s @ [EP_CLEAR_SETUP, EP_CLEAR_OUT, DF_SELECT,
                      DF_CONFIG_READ DF_CMD_CONTARRAYREAD_LF
                        (addr32 (curFlash64KBPageNumber s) a1 a2 div of_nat (DATAFLASH_PAGE_SIZE b))
                        (addr32 (curFlash64KBPageNumber s) a1 a2 mod of_nat (DATAFLASH_PAGE_SIZE b))]
                    @ map DF_RECEIVE
                        (scanned_cells (dataflash s) (addr32 (curFlash64KBPageNumber s) a1 a2)
                           (addr32 (curFlash64KBPageNumber s) a3 a4))
                    @ [DF_DESELECT, EP_CLEAR_STATUS_STAGE]"
    unfolding e using f g a by (simp add: emit_def)
next
  assume o: "opc = 0x03"
  then show "EVENT_USB_Device_UnhandledControlRequest b r s =
              Some (s\<lparr>flipCommand := (flipCommand s)\<lparr>group := CMD_GROUP_UPLOAD,
                       data := (data (flipCommand s))(0 := 0x03, 1 := a1, 2 := a2, 3 := a3, 4 := a4)\<rparr>,
                     out_queue := q,
                     trace := trace s @ [EP_CLEAR_SETUP, EP_CLEAR_OUT, EP_CLEAR_STATUS_STAGE],
                     waitForSecondRequest := False\<rparr>)"
    by (simp add: dnload_blank_check [OF assms] ProcessUpload_def emit_def)
qed


text \<open>An EEPROM holding 0x00 everywhere, and a blank check of its window from 0 up to 4
  asked for outside \<open>dfuIDLE\<close>.\<close>

definition c4_state :: dfu where
  "c4_state = reset_state\<lparr>DFU_State := dfuDNLOAD_IDLE, eeprom := (\<lambda>a. 0x00),
     out_queue := [[3, 0x03, 0x00, 0x00, 0x00, 0x04]]\<rparr>"

text \<open>
  C4 as claimed fails for 0x03: no cell of the EEPROM is read, and state and status
  stay as they were although no cell of the window is blank.
\<close>

theorem C4_counterexample:
  "eeprom c4_state 0 = 0x00
   \<and> map_option (group \<circ> flipCommand)
        (EVENT_USB_Device_UnhandledControlRequest sample_board dnload6 c4_state)
       = Some CMD_GROUP_UPLOAD
   \<and> map_option (\<lambda>s. data (flipCommand s) 0)
        (EVENT_USB_Device_UnhandledControlRequest sample_board dnload6 c4_state) = Some 0x03
   \<and> map_option (\<lambda>s. (startAddr16 s, endAddr16 s))
        (EVENT_USB_Device_UnhandledControlRequest sample_board dnload6 c4_state) = Some (0, 4)
   \<and> map_option trace
        (EVENT_USB_Device_UnhandledControlRequest sample_board dnload6 c4_state)
       = Some [EP_CLEAR_SETUP, EP_CLEAR_OUT, EP_CLEAR_STATUS_STAGE]
   \<and> map_option DFU_State
        (EVENT_USB_Device_UnhandledControlRequest sample_board dnload6 c4_state)
       = Some dfuDNLOAD_IDLE
   \<and> map_option DFU_Status
        (EVENT_USB_Device_UnhandledControlRequest sample_board dnload6 c4_state) = Some OK"
proof -
  have "bRequest dnload6 = DFU_DNLOAD" "6 \<le> unat (wLength dnload6)"
    "out_queue c4_state = (CMD_GROUP_UPLOAD # 0x03 # 0x00 # 0x00 # 0x00 # 0x04 # []) # []"
    by (simp_all add: dnload6_def c4_state_def reset_state_def group_defs)
  from dnload_blank_check [OF this, of sample_board]
  show ?thesis
    by (simp add: ProcessUpload_def emit_def c4_state_def reset_state_def group_defs
        startAddr16_def endAddr16_def addr16_def)
qed

definition c4_flash_state :: dfu where
  "c4_flash_state = reset_state\<lparr>DFU_State := dfuDNLOAD_IDLE, flash := blank_but 2,
     out_queue := [[3, 0x01, 0x00, 0x00, 0x00, 0x04]]\<rparr>"

definition c4_df_state :: dfu where
  "c4_df_state = reset_state\<lparr>DFU_State := dfuERROR, curFlash64KBPageNumber := 1,
     out_queue := [[3, 0x11, 0x00, 0x00, 0x00, 0x04]]\<rparr>"

theorem C4_blank_check_in_dnload_witness:
  "DFU_State c4_flash_state \<noteq> dfuIDLE \<and> DFU_State c4_df_state \<noteq> dfuIDLE
   \<and> map_option trace
        (EVENT_USB_Device_UnhandledControlRequest sample_board dnload6 c4_flash_state)
       = Some [EP_CLEAR_SETUP, EP_CLEAR_OUT, PGM_READ_BYTE 0, PGM_READ_BYTE 1, PGM_READ_BYTE 2,
               EP_CLEAR_STATUS_STAGE]
   \<and> map_option trace
        (EVENT_USB_Device_UnhandledControlRequest sample_board dnload6 c4_df_state)
       = Some [EP_CLEAR_SETUP, EP_CLEAR_OUT, DF_SELECT,
               DF_CONFIG_READ DF_CMD_CONTARRAYREAD_LF 256 0,
               DF_RECEIVE 0x10000, DF_RECEIVE 0x10001, DF_RECEIVE 0x10002, DF_RECEIVE 0x10003,
               DF_DESELECT, EP_CLEAR_STATUS_STAGE]
   \<and> map_option trace
        (EVENT_USB_Device_UnhandledControlRequest sample_board dnload6 c4_state)
       = Some [EP_CLEAR_SETUP, EP_CLEAR_OUT, EP_CLEAR_STATUS_STAGE]"
proof -
  have r: "bRequest dnload6 = DFU_DNLOAD" "6 \<le> unat (wLength dnload6)"
    by (simp_all add: dnload6_def)
  have q: "out_queue c4_flash_state = (CMD_GROUP_UPLOAD # 0x01 # 0x00 # 0x00 # 0x00 # 0x04 # []) # []"
    "out_queue c4_df_state = (CMD_GROUP_UPLOAD # 0x11 # 0x00 # 0x00 # 0x00 # 0x04 # []) # []"
    "out_queue c4_state = (CMD_GROUP_UPLOAD # 0x03 # 0x00 # 0x00 # 0x00 # 0x04 # []) # []"
    by (simp_all add: c4_flash_state_def c4_df_state_def c4_state_def reset_state_def group_defs)
  have sc: "scanned_cells (blank_but (2 :: u16)) 0 4 = [0, 1, 2]"
    "scanned_cells (\<lambda>a. 0xFF :: u8) (0x10000 :: u32) 0x10004
       = [0x10000, 0x10001, 0x10002, 0x10003]"
    by (simp_all add: scanned_cells_def c3_cells blank_but_def)
  have a: "map_option trace
        (EVENT_USB_Device_UnhandledControlRequest sample_board dnload6 c4_flash_state)
       = Some [EP_CLEAR_SETUP, EP_CLEAR_OUT, PGM_READ_BYTE 0, PGM_READ_BYTE 1, PGM_READ_BYTE 2,
               EP_CLEAR_STATUS_STAGE]"
    using C4_blank_check_in_dnload [OF r q(1), of sample_board] sc
    by (auto simp: c4_flash_state_def reset_state_def addr16_def)
  have b: "map_option trace
        (EVENT_USB_Device_UnhandledControlRequest sample_board dnload6 c4_df_state)
       = Some [EP_CLEAR_SETUP, EP_CLEAR_OUT, DF_SELECT,
               DF_CONFIG_READ DF_CMD_CONTARRAYREAD_LF 256 0,
               DF_RECEIVE 0x10000, DF_RECEIVE 0x10001, DF_RECEIVE 0x10002, DF_RECEIVE 0x10003,
               DF_DESELECT, EP_CLEAR_STATUS_STAGE]"
    using C4_blank_check_in_dnload [OF r q(2), of sample_board] sc
    by (auto simp: c4_df_state_def reset_state_def addr32_def sample_board_def)
  have c: "map_option trace
        (EVENT_USB_Device_UnhandledControlRequest sample_board dnload6 c4_state)
       = Some [EP_CLEAR_SETUP, EP_CLEAR_OUT, EP_CLEAR_STATUS_STAGE]"
    using C4_blank_check_in_dnload [OF r q(3), of sample_board]
    by (simp add: c4_state_def reset_state_def)
  from a b c show ?thesis
    by (simp add: c4_flash_state_def c4_df_state_def)
qed

section \<open>The flash Download stream\<close>

text \<open>\<^verbatim>\<open>boot_page_fill(curAddr, Endpoint_Read_Word_LE())\<close> as one step.\<close>

definition fill_next_word :: "u16 \<Rightarrow> dfu \<Rightarrow> dfu" where
  "fill_next_word curAddr s =
     emit (PAGE_FILL curAddr (fst (Endpoint_Read_Word_LE s))) (snd (Endpoint_Read_Word_LE s))"

text \<open>What a page boundary logs: the erase of the new page, the commit of the page
  before it unless the transfer starts here, and the re-enabling of the RWW section.\<close>

definition new_page_calls :: "u16 \<Rightarrow> u16 \<Rightarrow> hw_call list" where
  "new_page_calls startAddr curAddr =
     PAGE_ERASE curAddr # (if curAddr \<noteq> startAddr then [PAGE_WRITE (curAddr - 2)] else [])
       @ [RWW_ENABLE]"

lemma flash_new_page_go:
  "\<not> en < cur \<Longrightarrow>
   flash_new_page st en cur s = (False, s\<lparr>trace := trace s @ new_page_calls st cur\<rparr>)"
  by (simp add: flash_new_page_def new_page_calls_def emit_def)

lemma flash_new_page_stop:
  "en < cur \<Longrightarrow>
   flash_new_page st en cur s =
     (True, s\<lparr>DFU_State := dfuMANIFEST_SYNC, trace := trace s @ new_page_calls st cur\<rparr>)"
  by (simp add: flash_new_page_def new_page_calls_def emit_def)

lemma flash_dl_packet_done:
  "\<not> i < FIXED_CONTROL_ENDPOINT_SIZE b \<Longrightarrow> flash_dl_packet b st en i cur s = (cur, s)"
  by (simp add: flash_dl_packet.simps)

lemma flash_dl_packet_fill:
  "i < FIXED_CONTROL_ENDPOINT_SIZE b \<Longrightarrow> unat cur mod SPM_PAGESIZE b \<noteq> 0 \<Longrightarrow>
   flash_dl_packet b st en i cur s =
     flash_dl_packet b st en (i + 2) (cur + 2) (fill_next_word cur s)"
  by (subst flash_dl_packet.simps) (simp add: split_beta fill_next_word_def)

lemma flash_dl_packet_new_page:
  "i < FIXED_CONTROL_ENDPOINT_SIZE b \<Longrightarrow> unat cur mod SPM_PAGESIZE b = 0 \<Longrightarrow> \<not> en < cur \<Longrightarrow>
   flash_dl_packet b st en i cur s =
     flash_dl_packet b st en (i + 2) (cur + 2)
       (fill_next_word cur (s\<lparr>trace := trace s @ new_page_calls st cur\<rparr>))"
  by (subst flash_dl_packet.simps) (simp add: split_beta flash_new_page_go fill_next_word_def)

lemma flash_dl_packet_last_page:
  "i < FIXED_CONTROL_ENDPOINT_SIZE b \<Longrightarrow> unat cur mod SPM_PAGESIZE b = 0 \<Longrightarrow> en < cur \<Longrightarrow>
   flash_dl_packet b st en i cur s =
     (cur, s\<lparr>DFU_State := dfuMANIFEST_SYNC, trace := trace s @ new_page_calls st cur\<rparr>)"
  by (subst flash_dl_packet.simps) (simp add: flash_new_page_stop)

lemma flash_dl_packet_cases [case_names finished fill new_page last_page]:
  assumes "\<And>i cur s. \<not> i < FIXED_CONTROL_ENDPOINT_SIZE b \<Longrightarrow> P i cur s"
    and "\<And>i cur s. i < FIXED_CONTROL_ENDPOINT_SIZE b \<Longrightarrow> unat cur mod SPM_PAGESIZE b \<noteq> 0 \<Longrightarrow>
          P (i + 2) (cur + 2) (fill_next_word cur s) \<Longrightarrow> P i cur s"
    and "\<And>i cur s. i < FIXED_CONTROL_ENDPOINT_SIZE b \<Longrightarrow> unat cur mod SPM_PAGESIZE b = 0 \<Longrightarrow>
          \<not> en < cur \<Longrightarrow>
          P (i + 2) (cur + 2) (fill_next_word cur (s\<lparr>trace := trace s @ new_page_calls st cur\<rparr>)) \<Longrightarrow>
          P i cur s"
    and "\<And>i cur s. i < FIXED_CONTROL_ENDPOINT_SIZE b \<Longrightarrow> unat cur mod SPM_PAGESIZE b = 0 \<Longrightarrow>
          en < cur \<Longrightarrow> P i cur s"
  shows "P i cur s"
proof (induction "FIXED_CONTROL_ENDPOINT_SIZE b - i" arbitrary: i cur s rule: less_induct)
  case less
  show ?case
  proof (cases "i < FIXED_CONTROL_ENDPOINT_SIZE b")
    case False
    then show ?thesis by (rule assms(1))
  next
    case True
    note lt = this
    then have d: "FIXED_CONTROL_ENDPOINT_SIZE b - (i + 2) < FIXED_CONTROL_ENDPOINT_SIZE b - i"
      by simp
    show ?thesis
    proof (cases "unat cur mod SPM_PAGESIZE b = 0")
      case False
      show ?thesis by (rule assms(2) [OF lt False less [OF d]])
    next
      case True
      note pg = this
      show ?thesis
      proof (cases "en < cur")
        case True
        show ?thesis by (rule assms(4) [OF lt pg True])
      next
        case False
        show ?thesis by (rule assms(3) [OF lt pg False less [OF d]])
      qed
    qed
  qed
qed

lemma DFU_State_fill_next_word [simp]: "DFU_State (fill_next_word cur s) = DFU_State s"
  by (simp add: fill_next_word_def Endpoint_Read_Word_LE_def Endpoint_Read_Byte_def emit_def
      split: list.splits prod.splits)

text \<open>A packet loop leaves the state as it found it, or stops on a page boundary
  beyond the end of the window with \<open>dfuMANIFEST_SYNC\<close>.\<close>

lemma flash_dl_packet_state:
  "DFU_State s \<noteq> dfuMANIFEST_SYNC \<Longrightarrow>
   (DFU_State (snd (flash_dl_packet b st en i cur s)) = dfuMANIFEST_SYNC
      \<and> unat (fst (flash_dl_packet b st en i cur s)) mod SPM_PAGESIZE b = 0
      \<and> en < fst (flash_dl_packet b st en i cur s))
   \<or> DFU_State (snd (flash_dl_packet b st en i cur s)) = DFU_State s"
proof (induction i cur s rule: flash_dl_packet_cases [of b _ en st])
  case (finished i cur s)
  then show ?case by (simp add: flash_dl_packet_done)
next
  case (fill i cur s)
  then show ?case by (simp add: flash_dl_packet_fill)
next
  case (new_page i cur s)
  then show ?case by (simp add: flash_dl_packet_new_page)
next
  case (last_page i cur s)
  then show ?case by (simp add: flash_dl_packet_last_page)
qed


lemma flash_dl_stream_done:
  "DFU_State s = dfuMANIFEST_SYNC \<Longrightarrow> flash_dl_stream b st en cur s = Some (cur, s)"
  by (simp add: flash_dl_stream.simps)

lemma flash_dl_stream_blocked:
  "DFU_State s \<noteq> dfuMANIFEST_SYNC \<Longrightarrow> out_queue s = [] \<Longrightarrow>
   flash_dl_stream b st en cur s = None"
  by (simp add: flash_dl_stream.simps wait_OUT_def)

lemma flash_dl_stream_packet:
  "DFU_State s \<noteq> dfuMANIFEST_SYNC \<Longrightarrow> out_queue s \<noteq> [] \<Longrightarrow>
   flash_dl_stream b st en cur s =
     flash_dl_stream b st en (fst (flash_dl_packet b st en 0 cur (s\<lparr>DFU_State := dfuDNBUSY\<rparr>)))
       (packet_done (snd (flash_dl_packet b st en 0 cur (s\<lparr>DFU_State := dfuDNBUSY\<rparr>))))"
  by (subst flash_dl_stream.simps) (simp add: wait_OUT_def split_beta)

lemma flash_dl_stream_cases [case_names finished blocked packet]:
  assumes "\<And>cur s. DFU_State s = dfuMANIFEST_SYNC \<Longrightarrow> P cur s"
    and "\<And>cur s. DFU_State s \<noteq> dfuMANIFEST_SYNC \<Longrightarrow> out_queue s = [] \<Longrightarrow> P cur s"
    and "\<And>cur s. DFU_State s \<noteq> dfuMANIFEST_SYNC \<Longrightarrow> out_queue s \<noteq> [] \<Longrightarrow>
          P (fst (flash_dl_packet b st en 0 cur (s\<lparr>DFU_State := dfuDNBUSY\<rparr>)))
            (packet_done (snd (flash_dl_packet b st en 0 cur (s\<lparr>DFU_State := dfuDNBUSY\<rparr>)))) \<Longrightarrow>
          P cur s"
  shows "P cur s"
proof (induction "length (out_queue s)" arbitrary: cur s rule: less_induct)
  case less
  show ?case
  proof (cases "DFU_State s = dfuMANIFEST_SYNC")
    case True
    then show ?thesis by (rule assms(1))
  next
    case False
    note st = this
    show ?thesis
    proof (cases "out_queue s = []")
      case True
      show ?thesis by (rule assms(2) [OF st True])
    next
      case False
      have "length (out_queue (packet_done (snd (flash_dl_packet b st en 0 cur (s\<lparr>DFU_State := dfuDNBUSY\<rparr>)))))
          < length (out_queue s)"
        using False
        by (simp add: length_queue_packet_done length_queue_flash_dl_packet)
      then show ?thesis
        by (rule assms(3) [OF st False less])
    qed
  qed
qed

lemma packet_done_state:
  "DFU_State (packet_done s) = (if DFU_State s = dfuDNBUSY then dfuDNLOAD_SYNC else DFU_State s)"
  by (simp add: packet_done_def Endpoint_ClearOUT_def emit_def Let_def)

lemma packet_done_trace: "trace (packet_done s) = trace s @ [EP_CLEAR_OUT]"
  by (simp add: packet_done_def Endpoint_ClearOUT_def emit_def Let_def)

text \<open>The stream returns only from a page boundary beyond the end of the window, in
  \<open>dfuMANIFEST_SYNC\<close>, and the last thing it did was to acknowledge a packet.\<close>

lemma flash_dl_stream_returns:
  "DFU_State s \<noteq> dfuMANIFEST_SYNC \<Longrightarrow> flash_dl_stream b st en cur s = Some (cur', s') \<Longrightarrow>
   DFU_State s' = dfuMANIFEST_SYNC \<and> unat cur' mod SPM_PAGESIZE b = 0 \<and> en < cur'
     \<and> last (trace s') = EP_CLEAR_OUT"
proof (induction cur s rule: flash_dl_stream_cases [of _ b st en])
  case (finished cur s)
  then show ?case by simp
next
  case (blocked cur s)
  then show ?case by (simp add: flash_dl_stream_blocked)
next
  case (packet cur s)
  let ?R = "flash_dl_packet b st en 0 cur (s\<lparr>DFU_State := dfuDNBUSY\<rparr>)"
  have r: "flash_dl_stream b st en (fst ?R) (packet_done (snd ?R)) = Some (cur', s')"
    using packet.prems packet.hyps by (simp add: flash_dl_stream_packet)
  have "(DFU_State (snd ?R) = dfuMANIFEST_SYNC \<and> unat (fst ?R) mod SPM_PAGESIZE b = 0 \<and> en < fst ?R)
      \<or> DFU_State (snd ?R) = dfuDNBUSY"
    using flash_dl_packet_state [of "s\<lparr>DFU_State := dfuDNBUSY\<rparr>" b st en 0 cur] by simp
  then show ?case
  proof
    assume m: "DFU_State (snd ?R) = dfuMANIFEST_SYNC \<and> unat (fst ?R) mod SPM_PAGESIZE b = 0
        \<and> en < fst ?R"
    then have "DFU_State (packet_done (snd ?R)) = dfuMANIFEST_SYNC"
      by (simp add: packet_done_state)
    with r have "cur' = fst ?R" "s' = packet_done (snd ?R)"
      by (simp_all add: flash_dl_stream_done)
    with m show ?thesis
      by (simp add: packet_done_state packet_done_trace)
  next
    assume "DFU_State (snd ?R) = dfuDNBUSY"
    then have "DFU_State (packet_done (snd ?R)) \<noteq> dfuMANIFEST_SYNC"
      by (simp add: packet_done_state)
    then show ?thesis
      using packet.IH r by simp
  qed
qed


text \<open>
  C5, as the code has it. The flash stream tests the end of the window only when the
  cursor is on a page boundary. On a page boundary beyond \<open>endAddr\<close> the packet loop
  erases the new page, commits the one before, sets \<open>dfuMANIFEST_SYNC\<close> and reads no
  further word; the packet is acknowledged and the stream returns. Off a page boundary
  the next word is read and filled whatever \<open>endAddr\<close> is. And the stream returns in
  no other way: when it returns, the cursor is on a page boundary beyond \<open>endAddr\<close>,
  the state is \<open>dfuMANIFEST_SYNC\<close>, and the acknowledgement was the last call.
\<close>

theorem C5_end_test_on_page_boundary:
  "(i < FIXED_CONTROL_ENDPOINT_SIZE b \<and> unat cur mod SPM_PAGESIZE b = 0 \<and> en < cur \<longrightarrow>
      flash_dl_packet b st en i cur s
        = (cur, s\<lparr>DFU_State := dfuMANIFEST_SYNC, trace := trace s @ new_page_calls st cur\<rparr>)
      \<and> flash_dl_stream b st en cur
          (packet_done (s\<lparr>DFU_State := dfuMANIFEST_SYNC, trace := trace s @ new_page_calls st cur\<rparr>))
        = Some (cur, s\<lparr>DFU_State := dfuMANIFEST_SYNC, out_queue := tl (out_queue s),
                    trace := trace s @ new_page_calls st cur @ [EP_CLEAR_OUT]\<rparr>))
   \<and> (i < FIXED_CONTROL_ENDPOINT_SIZE b \<and> unat cur mod SPM_PAGESIZE b \<noteq> 0 \<longrightarrow>
      flash_dl_packet b st en i cur s
        = flash_dl_packet b st en (i + 2) (cur + 2) (fill_next_word cur s))
   \<and> (DFU_State s \<noteq> dfuMANIFEST_SYNC \<and> flash_dl_stream b st en cur s = Some (cur', s') \<longrightarrow>
      DFU_State s' = dfuMANIFEST_SYNC \<and> unat cur' mod SPM_PAGESIZE b = 0 \<and> en < cur'
      \<and> last (trace s') = EP_CLEAR_OUT)"
proof (intro conjI impI)
  assume h: "i < FIXED_CONTROL_ENDPOINT_SIZE b \<and> unat cur mod SPM_PAGESIZE b = 0 \<and> en < cur"
  then show "flash_dl_packet b st en i cur s
        = (cur, s\<lparr>DFU_State := dfuMANIFEST_SYNC, trace := trace s @ new_page_calls st cur\<rparr>)"
    by (simp add: flash_dl_packet_last_page)
  show "flash_dl_stream b st en cur
          (packet_done (s\<lparr>DFU_State := dfuMANIFEST_SYNC, trace := trace s @ new_page_calls st cur\<rparr>))
        = Some (cur, s\<lparr>DFU_State := dfuMANIFEST_SYNC, out_queue := tl (out_queue s),
                    trace := trace s @ new_page_calls st cur @ [EP_CLEAR_OUT]\<rparr>)"
    by (simp add: flash_dl_stream_done packet_done_state)
      (simp add: packet_done_def Endpoint_ClearOUT_def emit_def)
next
  assume "i < FIXED_CONTROL_ENDPOINT_SIZE b \<and> unat cur mod SPM_PAGESIZE b \<noteq> 0"
  then show "flash_dl_packet b st en i cur s
        = flash_dl_packet b st en (i + 2) (cur + 2) (fill_next_word cur s)"
    by (simp add: flash_dl_packet_fill)
next
  assume h: "DFU_State s \<noteq> dfuMANIFEST_SYNC \<and> flash_dl_stream b st en cur s = Some (cur', s')"
  then have r: "DFU_State s' = dfuMANIFEST_SYNC \<and> unat cur' mod SPM_PAGESIZE b = 0 \<and> en < cur'
     \<and> last (trace s') = EP_CLEAR_OUT"
    using flash_dl_stream_returns [of s b st en cur cur' s'] by simp
  from r show "DFU_State s' = dfuMANIFEST_SYNC" by simp
  from r show "unat cur' mod SPM_PAGESIZE b = 0" by simp
  from r show "en < cur'" by simp
  from r show "last (trace s') = EP_CLEAR_OUT" by simp
qed

text \<open>One packet of a firmware image.\<close>

definition data_packet :: "u8 list" where
  "data_packet = [0x0C, 0x94, 0x34, 0x00, 0x0C, 0x94, 0x3E, 0x00,
                  0x0C, 0x94, 0x3E, 0x00, 0x0C, 0x94, 0x3E, 0x00,
                  0x0C, 0x94, 0x3E, 0x00, 0x0C, 0x94, 0x3E, 0x00,
                  0x0C, 0x94, 0x3E, 0x00, 0x0C, 0x94, 0x3E, 0x00]"

text \<open>A flash Download of the window from 0x0078 to 0x007A, and the host's packet.\<close>

definition c5_state :: dfu where
  "c5_state = reset_state\<lparr>
     flipCommand := command CMD_GROUP_DOWNLOAD [0x00, 0x00, 0x78, 0x00, 0x7A],
     out_queue := [data_packet]\<rparr>"

text \<open>The rewrite rules that run a flash Download on given packets.\<close>

lemmas flash_dl_eval =
  flash_dl_packet_done flash_dl_packet_fill flash_dl_packet_new_page flash_dl_packet_last_page
  flash_dl_stream_done flash_dl_stream_blocked flash_dl_stream_packet
  fill_next_word_def new_page_calls_def packet_done_def
  Endpoint_ClearOUT_def Endpoint_Read_Word_LE_def Endpoint_Read_Byte_def emit_def Let_def
  startAddr16_def endAddr16_def addr16_def command_def reset_state_def sample_board_def
  data_packet_def

text \<open>
  C5 as claimed fails between page boundaries: with the end of the window at 0x007A the
  words at 0x007C and 0x007E are still read and filled, and only at 0x0080 does the
  state become \<open>dfuMANIFEST_SYNC\<close>.
\<close>

theorem C5_counterexample:
  "startAddr16 c5_state = 0x0078 \<and> endAddr16 c5_state = 0x007A
   \<and> map_option trace (ProcessDownload sample_board c5_state)
     = Some [PAGE_FILL 0x0078 0x940C, PAGE_FILL 0x007A 0x0034,
             PAGE_FILL 0x007C 0x940C, PAGE_FILL 0x007E 0x003E,
             PAGE_ERASE 0x0080, PAGE_WRITE 0x007E, RWW_ENABLE, EP_CLEAR_OUT]"
  by (simp add: ProcessDownload_def c5_state_def flash_dl_eval)


theorem C5_end_test_on_page_boundary_witness:
  "flash_dl_packet sample_board 0x0078 0x007A 8 0x0080 c5_state
     = (0x0080, c5_state\<lparr>DFU_State := dfuMANIFEST_SYNC,
          trace := [PAGE_ERASE 0x0080, PAGE_WRITE 0x007E, RWW_ENABLE]\<rparr>)
   \<and> flash_dl_packet sample_board 0x0078 0x007A 4 0x007C c5_state
     = flash_dl_packet sample_board 0x0078 0x007A 6 0x007E (fill_next_word 0x007C c5_state)
   \<and> map_option fst (flash_dl_stream sample_board 0x0078 0x007A 0x0078 c5_state) = Some 0x0080
   \<and> map_option (DFU_State \<circ> snd) (flash_dl_stream sample_board 0x0078 0x007A 0x0078 c5_state)
     = Some dfuMANIFEST_SYNC"
proof -
  have a: "flash_dl_packet sample_board 0x0078 0x007A 8 0x0080 c5_state
     = (0x0080, c5_state\<lparr>DFU_State := dfuMANIFEST_SYNC,
          trace := [PAGE_ERASE 0x0080, PAGE_WRITE 0x007E, RWW_ENABLE]\<rparr>)"
    using C5_end_test_on_page_boundary [where b = sample_board and i = 8 and cur = "0x0080"
        and en = "0x007A" and st = "0x0078" and s = c5_state]
    by (simp add: sample_board_def new_page_calls_def c5_state_def reset_state_def)
  have b: "flash_dl_packet sample_board 0x0078 0x007A 4 0x007C c5_state
     = flash_dl_packet sample_board 0x0078 0x007A 6 0x007E (fill_next_word 0x007C c5_state)"
    using C5_end_test_on_page_boundary [where b = sample_board and i = 4 and cur = "0x007C"
        and en = "0x007A" and st = "0x0078" and s = c5_state]
    by (simp add: sample_board_def)
  have e: "flash_dl_stream sample_board 0x0078 0x007A 0x0078 c5_state
     = Some (0x0080, c5_state\<lparr>DFU_State := dfuMANIFEST_SYNC, out_queue := [],
          trace := [PAGE_FILL 0x0078 0x940C, PAGE_FILL 0x007A 0x0034,
             PAGE_FILL 0x007C 0x940C, PAGE_FILL 0x007E 0x003E,
             PAGE_ERASE 0x0080, PAGE_WRITE 0x007E, RWW_ENABLE, EP_CLEAR_OUT]\<rparr>)"
    by (simp add: c5_state_def flash_dl_eval)
  have ns: "DFU_State c5_state \<noteq> dfuMANIFEST_SYNC"
    by (simp add: c5_state_def reset_state_def)
  have c: "map_option (DFU_State \<circ> snd) (flash_dl_stream sample_board 0x0078 0x007A 0x0078 c5_state)
     = Some dfuMANIFEST_SYNC"
    using C5_end_test_on_page_boundary [where b = sample_board and cur = "0x0078"
        and en = "0x007A" and st = "0x0078" and s = c5_state and cur' = "0x0080"
        and s' = "c5_state\<lparr>DFU_State := dfuMANIFEST_SYNC, out_queue := [],
          trace := [PAGE_FILL 0x0078 0x940C, PAGE_FILL 0x007A 0x0034,
             PAGE_FILL 0x007C 0x940C, PAGE_FILL 0x007E 0x003E,
             PAGE_ERASE 0x0080, PAGE_WRITE 0x007E, RWW_ENABLE, EP_CLEAR_OUT]\<rparr>"]
      e ns
    by simp
  from a b c e show ?thesis by simp
qed

section \<open>Page erases and commits of a flash Download\<close>

fun is_page_op :: "hw_call \<Rightarrow> bool" where
  "is_page_op (PAGE_ERASE a) = True"
| "is_page_op (PAGE_WRITE a) = True"
| "is_page_op c = False"

text \<open>The erases and commits of a run that returns, in the order they were made.\<close>

definition page_ops :: "dfu option \<Rightarrow> hw_call list option" where
  "page_ops r = map_option (filter is_page_op \<circ> trace) r"

text \<open>A flash Download of the window from 0x0000 to 0x007F, which is the first page
  and nothing else: four data packets fill it, and a fifth packet follows.\<close>

definition c2_state :: dfu where
  "c2_state = reset_state\<lparr>
     flipCommand := command CMD_GROUP_DOWNLOAD [0x00, 0x00, 0x00, 0x00, 0x7F],
     out_queue := [data_packet, data_packet, data_packet, data_packet, []]\<rparr>"

text \<open>
  C2. The count of one erase and one commit per page of the window is not what the
  stream does when the window starts on a page boundary: for this window of one page
  it erases the page at 0x0000 and the page at 0x0080, and commits one page. At the
  boundary that closes the window, \<^verbatim>\<open>boot_page_erase(curAddr)\<close> comes before the test
  \<^verbatim>\<open>curAddr > endAddr\<close>, so the page after the window is erased too.
\<close>

theorem C2_one_page_window_two_erases:
  "startAddr16 c2_state = 0x0000 \<and> endAddr16 c2_state = 0x007F
   \<and> page_ops (ProcessDownload sample_board c2_state)
     = Some [PAGE_ERASE 0x0000, PAGE_ERASE 0x0080, PAGE_WRITE 0x007E]"
  by (simp add: ProcessDownload_def c2_state_def page_ops_def flash_dl_eval)

section \<open>Which cells a window covers when writing and when reading\<close>

subsection \<open>The EEPROM Download stream\<close>

text \<open>\<^verbatim>\<open>eeprom_write_byte((uint8_t*)curAddr, Endpoint_Read_Byte())\<close> as one step.\<close>

definition write_next_byte :: "u16 \<Rightarrow> dfu \<Rightarrow> dfu" where
  "write_next_byte curAddr s =
     emit (EEPROM_WRITE curAddr (fst (Endpoint_Read_Byte s))) (snd (Endpoint_Read_Byte s))"

fun eeprom_write_of :: "hw_call \<Rightarrow> u16 list" where
  "eeprom_write_of (EEPROM_WRITE a v) = [a]"
| "eeprom_write_of c = []"

text \<open>The EEPROM cells a log writes, in order.\<close>

definition eeprom_writes :: "hw_call list \<Rightarrow> u16 list" where
  "eeprom_writes cs = concat (map eeprom_write_of cs)"

lemma eeprom_writes_append [simp]:
  "eeprom_writes (cs @ ds) = eeprom_writes cs @ eeprom_writes ds"
  by (simp add: eeprom_writes_def)

lemma eeprom_writes_simps [simp]:
  "eeprom_writes [] = []"
  "eeprom_writes (EEPROM_WRITE a v # cs) = a # eeprom_writes cs"
  "eeprom_writes (EP_CLEAR_OUT # cs) = eeprom_writes cs"
  by (simp_all add: eeprom_writes_def)





lemma write_next_byte_fields [simp]:
  "DFU_State (write_next_byte cur s) = DFU_State s"
  "trace (write_next_byte cur s) = trace s @ [EEPROM_WRITE cur (fst (Endpoint_Read_Byte s))]"
  by (simp_all add: write_next_byte_def Endpoint_Read_Byte_def emit_def split: list.splits)


lemma window_cells_self [simp]: "window_cells a a = []"
  by (simp add: window_cells_def)



















subsection \<open>The dataflash Download stream\<close>

text \<open>\<^verbatim>\<open>Dataflash_SendByte(Endpoint_Read_Byte())\<close> as one step.\<close>

definition send_next_byte :: "dfu \<Rightarrow> dfu" where
  "send_next_byte s = emit (DF_SEND (fst (Endpoint_Read_Byte s))) (snd (Endpoint_Read_Byte s))"

lemma DFU_State_send_next_byte [simp]: "DFU_State (send_next_byte s) = DFU_State s"
  by (simp add: send_next_byte_def Endpoint_Read_Byte_def emit_def split: list.splits)













subsection \<open>The display streams\<close>








fun eeprom_read_of :: "hw_call \<Rightarrow> u16 list" where
  "eeprom_read_of (EEPROM_READ a) = [a]"
| "eeprom_read_of c = []"

text \<open>The EEPROM cells a log reads, in order.\<close>

definition eeprom_reads :: "hw_call list \<Rightarrow> u16 list" where
  "eeprom_reads cs = concat (map eeprom_read_of cs)"

lemma eeprom_reads_append [simp]:
  "eeprom_reads (cs @ ds) = eeprom_reads cs @ eeprom_reads ds"
  by (simp add: eeprom_reads_def)

lemma eeprom_reads_simps [simp]:
  "eeprom_reads [] = []"
  "eeprom_reads (EEPROM_READ a # cs) = a # eeprom_reads cs"
  "eeprom_reads (EP_WRITE_BYTE v # cs) = eeprom_reads cs"
  "eeprom_reads (EP_CLEAR_IN # cs) = eeprom_reads cs"
  by (simp_all add: eeprom_reads_def)

text \<open>The \<open>n\<close> cells from \<open>a\<close> on, wrapping around at the top of the address space as
  the cursor does.\<close>

definition cells_from :: "'a::len word \<Rightarrow> nat \<Rightarrow> 'a word list" where
  "cells_from a n = map (\<lambda>k. a + of_nat k) [0..<n]"

lemma cells_from_0 [simp]: "cells_from a 0 = []"
  by (simp add: cells_from_def)




text \<open>The flash words and the dataflash cells a log reads, in order.\<close>

fun pgm_word_read_of :: "hw_call \<Rightarrow> u16 list" where
  "pgm_word_read_of (PGM_READ_WORD a) = [a]"
| "pgm_word_read_of c = []"

definition flash_word_reads :: "hw_call list \<Rightarrow> u16 list" where
  "flash_word_reads cs = concat (map pgm_word_read_of cs)"

fun df_read_of :: "hw_call \<Rightarrow> u32 list" where
  "df_read_of (DF_RECEIVE a) = [a]"
| "df_read_of c = []"

definition df_reads :: "hw_call list \<Rightarrow> u32 list" where
  "df_reads cs = concat (map df_read_of cs)"

text \<open>The \<open>n\<close> words from \<open>a\<close> on, two bytes apart.\<close>

definition words_from :: "u16 \<Rightarrow> nat \<Rightarrow> u16 list" where
  "words_from a n = map (\<lambda>k. a + 2 * of_nat k) [0..<n]"


lemma flash_word_reads_append [simp]:
  "flash_word_reads (cs @ ds) = flash_word_reads cs @ flash_word_reads ds"
  by (simp add: flash_word_reads_def)

lemma df_reads_append [simp]: "df_reads (cs @ ds) = df_reads cs @ df_reads ds"
  by (simp add: df_reads_def)

lemma flash_word_reads_simps [simp]:
  "flash_word_reads [] = []"
  "flash_word_reads (PGM_READ_WORD a # cs) = a # flash_word_reads cs"
  "flash_word_reads (EP_WRITE_WORD_LE w # cs) = flash_word_reads cs"
  "flash_word_reads (EP_CLEAR_IN # cs) = flash_word_reads cs"
  by (simp_all add: flash_word_reads_def)

lemma df_reads_simps [simp]:
  "df_reads [] = []"
  "df_reads (DF_RECEIVE a32 # cs) = a32 # df_reads cs"
  "df_reads (EP_WRITE_BYTE v # cs) = df_reads cs"
  "df_reads (EP_CLEAR_IN # cs) = df_reads cs"
  by (simp_all add: df_reads_def)

lemma words_from_0 [simp]: "words_from a 0 = []"
  by (simp add: words_from_def)
















subsection \<open>Writing up to and including the end, reading up to the end\<close>



subsection \<open>Runs on given packets\<close>














end
